theory Spec2Isabelle
  imports Complex_Main
begin

section \<open>Geometry kernel\<close>

text \<open>
  The TypeScript \<open>number\<close> type is modelled by \<^typ>\<open>real\<close>: the comparisons and
  the arithmetic of the source are read over the reals, so the IEEE values NaN and
  \<open>\<plusminus>Infinity\<close> and rounding are outside the model.
\<close>

subsection \<open>Vector.ts, AABB.ts\<close>

record Vector =
  vx :: real
  vy :: real

record AABB =
  minX :: real
  minY :: real
  maxX :: real
  maxY :: real

definition mkVector :: "real \<Rightarrow> real \<Rightarrow> Vector" where
  "mkVector px py = \<lparr>vx = px, vy = py\<rparr>"

definition mkAABB :: "real \<Rightarrow> real \<Rightarrow> real \<Rightarrow> real \<Rightarrow> AABB" where
  "mkAABB x0 y0 x1 y1 = \<lparr>minX = x0, minY = y0, maxX = x1, maxY = y1\<rparr>"

text \<open>\<open>AABB.containsPoint\<close>\<close>

definition containsPoint :: "AABB \<Rightarrow> Vector \<Rightarrow> bool" where
  "containsPoint this point \<longleftrightarrow>
     vx point \<ge> minX this \<and> vx point \<le> maxX this \<and>
     vy point \<ge> minY this \<and> vy point \<le> maxY this"

text \<open>\<open>AABB.intersects\<close>\<close>

definition intersects :: "AABB \<Rightarrow> AABB \<Rightarrow> bool" where
  "intersects this other \<longleftrightarrow>
     minX this \<le> maxX other \<and> maxX this \<ge> minX other \<and>
     minY this \<le> maxY other \<and> maxY this \<ge> minY other"

subsection \<open>Matrix.ts\<close>

text \<open>Everything that the modelled code can throw.\<close>

datatype error =
    NotInvertible           \<comment> \<open>\<open>Matrix is not invertible\<close>\<close>
  | MergeNotImplemented     \<comment> \<open>\<open>Command.merge\<close> of the base class\<close>
  | UnknownShapeType        \<comment> \<open>\<open>createShapeFromJSON\<close>\<close>
  | DbUnavailable           \<comment> \<open>a rejected database call\<close>
  | ValidationError         \<comment> \<open>a Mongoose schema validation failure\<close>

record Matrix =
  ma :: real
  mb :: real
  mc :: real
  md :: real
  me :: real
  mf :: real

definition mkMatrix :: "real \<Rightarrow> real \<Rightarrow> real \<Rightarrow> real \<Rightarrow> real \<Rightarrow> real \<Rightarrow> Matrix" where
  "mkMatrix a0 b0 c0 d0 e0 f0 = \<lparr>ma = a0, mb = b0, mc = c0, md = d0, me = e0, mf = f0\<rparr>"

definition Matrix_identity :: Matrix where
  "Matrix_identity = mkMatrix 1 0 0 1 0 0"

definition Matrix_translate :: "real \<Rightarrow> real \<Rightarrow> Matrix" where
  "Matrix_translate tx ty = mkMatrix 1 0 0 1 tx ty"

definition Matrix_scale :: "real \<Rightarrow> real \<Rightarrow> Matrix" where
  "Matrix_scale kx ky = mkMatrix kx 0 0 ky 0 0"

definition Matrix_rotate :: "real \<Rightarrow> Matrix" where
  "Matrix_rotate angle = mkMatrix (cos angle) (sin angle) (- sin angle) (cos angle) 0 0"

definition multiply :: "Matrix \<Rightarrow> Matrix \<Rightarrow> Matrix" where
  "multiply this m = mkMatrix
     (ma this * ma m + mc this * mb m)
     (mb this * ma m + md this * mb m)
     (ma this * mc m + mc this * md m)
     (mb this * mc m + md this * md m)
     (ma this * me m + mc this * mf m + me this)
     (mb this * me m + md this * mf m + mf this)"

definition invert :: "Matrix \<Rightarrow> error + Matrix" where
  "invert this =
     (let det = ma this * md this - mb this * mc this in
      if det = 0 then Inl NotInvertible
      else let invDet = 1 / det in
        Inr (mkMatrix
          (md this * invDet)
          (- mb this * invDet)
          (- mc this * invDet)
          (ma this * invDet)
          ((mc this * mf this - md this * me this) * invDet)
          ((mb this * me this - ma this * mf this) * invDet)))"

definition transformPoint :: "Matrix \<Rightarrow> Vector \<Rightarrow> Vector" where
  "transformPoint this point = mkVector
     (ma this * vx point + mc this * vy point + me this)
     (mb this * vx point + md this * vy point + mf this)"

definition translate :: "Matrix \<Rightarrow> real \<Rightarrow> real \<Rightarrow> Matrix" where
  "translate this tx ty = multiply this (Matrix_translate tx ty)"

definition scale :: "Matrix \<Rightarrow> real \<Rightarrow> real \<Rightarrow> Matrix" where
  "scale this kx ky = multiply this (Matrix_scale kx ky)"

definition rotate :: "Matrix \<Rightarrow> real \<Rightarrow> Matrix" where
  "rotate this angle = multiply this (Matrix_rotate angle)"

section \<open>Shape and scene model\<close>

subsection \<open>Shape.ts, Rect.ts, Circle.ts\<close>

text \<open>
  A \<open>Shape\<close> object is an entry of a store, addressed by its reference: the scene, the
  commands and the spatial index all hold references and see each other's
  mutations. The variants modelled are \<open>Rect\<close> and \<open>Circle\<close>; shapes are top-level
  (\<open>parent = null\<close>), so the world matrix is the local matrix. The opaque \<open>style\<close>
  object is left out.
\<close>

datatype Geometry =
    RectGeom (width: real) (height: real) (cornerRadius: real)
  | CircleGeom (radius: real)

record Shape =
  shapeId :: string
  shapeName :: string
  shapeX :: real
  shapeY :: real
  rotation :: real
  scaleX :: real
  scaleY :: real
  visible :: bool
  locked :: bool
  selected :: bool
  zIndex :: real
  geometry :: Geometry

type_synonym ref = nat
type_synonym store = "ref \<Rightarrow> Shape"

definition getLocalMatrix :: "Shape \<Rightarrow> Matrix" where
  "getLocalMatrix this =
     scale (rotate (translate Matrix_identity (shapeX this) (shapeY this)) (rotation this))
           (scaleX this) (scaleY this)"

definition getWorldMatrix :: "Shape \<Rightarrow> Matrix" where
  "getWorldMatrix this = getLocalMatrix this"

definition getInverseWorldMatrix :: "Shape \<Rightarrow> error + Matrix" where
  "getInverseWorldMatrix this = invert (getWorldMatrix this)"

definition worldToLocal :: "Shape \<Rightarrow> Vector \<Rightarrow> error + Vector" where
  "worldToLocal this point =
     (case getInverseWorldMatrix this of
        Inl err \<Rightarrow> Inl err
      | Inr m \<Rightarrow> Inr (transformPoint m point))"

text \<open>\<open>Vector.length\<close>\<close>

definition Vector_length :: "Vector \<Rightarrow> real" where
  "Vector_length v = sqrt (vx v * vx v + vy v * vy v)"

text \<open>\<open>Rect.hitTest\<close> and \<open>Circle.hitTest\<close>: the exact test, on a world point.\<close>

definition hitTest :: "Shape \<Rightarrow> Vector \<Rightarrow> error + bool" where
  "hitTest this worldPoint =
     (case worldToLocal this worldPoint of
        Inl err \<Rightarrow> Inl err
      | Inr localPoint \<Rightarrow>
          (case geometry this of
             RectGeom w h r \<Rightarrow>
               (let halfW = w / 2; halfH = h / 2 in
                Inr (vx localPoint \<ge> - halfW \<and> vx localPoint \<le> halfW \<and>
                     vy localPoint \<ge> - halfH \<and> vy localPoint \<le> halfH))
           | CircleGeom r \<Rightarrow> Inr (Vector_length localPoint \<le> r)))"

text \<open>\<open>Rect.getBoundingBox\<close> and \<open>Circle.getBoundingBox\<close>: the box in the shape's
  local coordinate system.\<close>

definition getBoundingBox :: "Shape \<Rightarrow> AABB" where
  "getBoundingBox this =
     (case geometry this of
        RectGeom w h r \<Rightarrow>
          (let halfW = w / 2; halfH = h / 2 in mkAABB (- halfW) (- halfH) halfW halfH)
      | CircleGeom r \<Rightarrow> mkAABB (- r) (- r) r r)"

text \<open>The \<open>Rect\<close> constructor, with the defaults of \<open>Shape\<close> for what is not passed.\<close>

definition mkRect :: "string \<Rightarrow> real \<Rightarrow> real \<Rightarrow> real \<Rightarrow> real \<Rightarrow> Shape" where
  "mkRect ident px py w h =
     \<lparr>shapeId = ident, shapeName = ''Rectangle'', shapeX = px, shapeY = py, rotation = 0,
      scaleX = 1, scaleY = 1, visible = True, locked = False, selected = False,
      zIndex = 0, geometry = RectGeom w h 0\<rparr>"

section \<open>Spatial index (QuadTree.ts)\<close>

text \<open>
  A node owns its bounds, its list of shape references and, once split, its four
  children. \<open>capacity\<close>, \<open>maxDepth\<close> and \<open>depth\<close> are fixed when a node is
  constructed (children get the parent's values and \<open>depth + 1\<close>), so the model
  passes them along as arguments. The scene always constructs the tree with the
  default capacity 4 and depth 8, which are natural numbers.
\<close>

datatype QuadTreeNode =
  QuadTreeNode (bounds: AABB) (nodeShapes: "ref list") (children: "QuadTreeNode list option")

definition mkQuadTreeNode :: "AABB \<Rightarrow> QuadTreeNode" where
  "mkQuadTreeNode b = QuadTreeNode b [] None"

definition pushShape :: "ref \<Rightarrow> QuadTreeNode \<Rightarrow> QuadTreeNode" where
  "pushShape shape this = QuadTreeNode (bounds this) (nodeShapes this @ [shape]) (children this)"

text \<open>The four children created by \<open>subdivide\<close>, in the order of the source.\<close>

definition quadrants :: "AABB \<Rightarrow> QuadTreeNode list" where
  "quadrants b =
     (let midX = (minX b + maxX b) / 2; midY = (minY b + maxY b) / 2 in
      [mkQuadTreeNode (mkAABB (minX b) (minY b) midX midY),
       mkQuadTreeNode (mkAABB midX (minY b) (maxX b) midY),
       mkQuadTreeNode (mkAABB (minX b) midY midX (maxY b)),
       mkQuadTreeNode (mkAABB midX midY (maxX b) (maxY b))])"

text \<open>
  \<open>QuadTreeNode.insert\<close> and \<open>QuadTreeNode.subdivide\<close>. The index is built from
  \<open>shape.getBoundingBox()\<close>, the box in the shape's local coordinates. In
  \<open>subdivide\<close> the shapes are re-inserted into the node after its children have
  been created; the test \<open>children node = None\<close> in that loop is never true
  (\<open>QuadTreeNode_insert_keeps_children\<close> below) and is only there to make the
  recursion visibly well-founded.
\<close>

function (sequential)
  QuadTreeNode_insert ::
    "nat \<Rightarrow> nat \<Rightarrow> store \<Rightarrow> nat \<Rightarrow> QuadTreeNode \<Rightarrow> ref \<Rightarrow> bool \<times> QuadTreeNode"
  and QuadTreeNode_subdivide ::
    "nat \<Rightarrow> nat \<Rightarrow> store \<Rightarrow> nat \<Rightarrow> QuadTreeNode \<Rightarrow> QuadTreeNode"
where
  "QuadTreeNode_insert capacity maxDepth h depth this shape =
     (if \<not> intersects (bounds this) (getBoundingBox (h shape)) then (False, this)
      else if length (nodeShapes this) < capacity \<and> children this = None then
        (True, pushShape shape this)
      else if depth \<ge> maxDepth then (True, pushShape shape this)
      else
        (let this1 = (if children this = None
                      then QuadTreeNode_subdivide capacity maxDepth h depth this
                      else this)
         in case children this1 of
              Some cs \<Rightarrow>
                (let (inserted, cs') =
                       fold (\<lambda>child (ins, visited).
                               (let (ok, child') =
                                      QuadTreeNode_insert capacity maxDepth h (Suc depth) child shape
                                in (ins \<or> ok, visited @ [child'])))
                            cs (False, []);
                     this2 = QuadTreeNode (bounds this1) (nodeShapes this1) (Some cs')
                 in (True, if inserted then this2 else pushShape shape this2))
            | None \<Rightarrow> (False, this1)))"
| "QuadTreeNode_subdivide capacity maxDepth h depth this =
     (if children this \<noteq> None then this
      else
        fold (\<lambda>shape node.
                if children node = None then node
                else snd (QuadTreeNode_insert capacity maxDepth h depth node shape))
             (nodeShapes this)
             (QuadTreeNode (bounds this) [] (Some (quadrants (bounds this)))))"
  by pat_completeness auto
termination
  by (relation "inv_image (less_than <*lex*> less_than)
     (\<lambda>arg. case arg of
        Inl (capacity, maxDepth, h, depth, this, shape) \<Rightarrow>
          (maxDepth - depth, if children this = None then 2 else 0::nat)
      | Inr (capacity, maxDepth, h, depth, this) \<Rightarrow> (maxDepth - depth, 1))")
     auto

declare QuadTreeNode_insert.simps [simp del] QuadTreeNode_subdivide.simps [simp del]

text \<open>\<open>QuadTreeNode.queryPoint\<close> and \<open>QuadTreeNode.query\<close>\<close>

fun QuadTreeNode_queryPoint :: "store \<Rightarrow> QuadTreeNode \<Rightarrow> Vector \<Rightarrow> ref list \<Rightarrow> ref list" where
  "QuadTreeNode_queryPoint h (QuadTreeNode b ss cs) point result =
     (if \<not> containsPoint b point then result
      else
        (let result1 = result @ filter (\<lambda>shape. containsPoint (getBoundingBox (h shape)) point) ss
         in case cs of
              None \<Rightarrow> result1
            | Some kids \<Rightarrow>
                fold (\<lambda>child res. QuadTreeNode_queryPoint h child point res) kids result1))"

fun QuadTreeNode_query :: "store \<Rightarrow> QuadTreeNode \<Rightarrow> AABB \<Rightarrow> ref list \<Rightarrow> ref list" where
  "QuadTreeNode_query h (QuadTreeNode b ss cs) area result =
     (if \<not> intersects b area then result
      else
        (let result1 = result @ filter (\<lambda>shape. intersects area (getBoundingBox (h shape))) ss
         in case cs of
              None \<Rightarrow> result1
            | Some kids \<Rightarrow>
                fold (\<lambda>child res. QuadTreeNode_query h child area res) kids result1))"

definition QuadTreeNode_clear :: "QuadTreeNode \<Rightarrow> QuadTreeNode" where
  "QuadTreeNode_clear this = QuadTreeNode (bounds this) [] None"

record QuadTree =
  root :: QuadTreeNode
  capacity :: nat
  maxDepth :: nat

definition mkQuadTree :: "AABB \<Rightarrow> QuadTree" where
  "mkQuadTree b = \<lparr>root = mkQuadTreeNode b, capacity = 4, maxDepth = 8\<rparr>"

definition QuadTree_insert :: "store \<Rightarrow> QuadTree \<Rightarrow> ref \<Rightarrow> QuadTree" where
  "QuadTree_insert h this shape =
     this\<lparr>root := snd (QuadTreeNode_insert (capacity this) (maxDepth this) h 0 (root this) shape)\<rparr>"

definition QuadTree_insertAll :: "store \<Rightarrow> QuadTree \<Rightarrow> ref list \<Rightarrow> QuadTree" where
  "QuadTree_insertAll h this rs = fold (\<lambda>shape t. QuadTree_insert h t shape) rs this"

definition QuadTree_clear :: "QuadTree \<Rightarrow> QuadTree" where
  "QuadTree_clear this = this\<lparr>root := QuadTreeNode_clear (root this)\<rparr>"

definition QuadTree_rebuild :: "store \<Rightarrow> QuadTree \<Rightarrow> ref list \<Rightarrow> QuadTree" where
  "QuadTree_rebuild h this rs = QuadTree_insertAll h (QuadTree_clear this) rs"

definition QuadTree_queryPoint :: "store \<Rightarrow> QuadTree \<Rightarrow> Vector \<Rightarrow> ref list" where
  "QuadTree_queryPoint h this point = QuadTreeNode_queryPoint h (root this) point []"

definition QuadTree_query :: "store \<Rightarrow> QuadTree \<Rightarrow> AABB \<Rightarrow> ref list" where
  "QuadTree_query h this area = QuadTreeNode_query h (root this) area []"

section \<open>Scene (Scene.ts)\<close>

text \<open>
  The scene holds the ordered list of shape references, the optional quadtree and
  its dirty flag. The change callbacks (\<open>notifyChange\<close>) are listeners of other
  components and are not part of the model.
\<close>

record Scene =
  shapes :: "ref list"
  autoSort :: bool
  quadTree :: "QuadTree option"
  useQuadTree :: bool
  quadTreeDirty :: bool

text \<open>The constructor; \<open>None\<close> is an option that was not passed.\<close>

definition mkScene :: "bool option \<Rightarrow> bool option \<Rightarrow> AABB option \<Rightarrow> Scene" where
  "mkScene optAutoSort optUseQuadTree optBounds =
     (let useQT = (case optUseQuadTree of Some u \<Rightarrow> u | None \<Rightarrow> False) in
      \<lparr>shapes = [],
       autoSort = (case optAutoSort of Some s \<Rightarrow> s | None \<Rightarrow> True),
       quadTree =
         (if useQT
          then Some (mkQuadTree (case optBounds of
                                   Some b \<Rightarrow> b
                                 | None \<Rightarrow> mkAABB (- 10000) (- 10000) 10000 10000))
          else None),
       useQuadTree = useQT,
       quadTreeDirty = True\<rparr>)"

text \<open>\<open>Scene.sort\<close>: \<open>Array.prototype.sort\<close> is stable, and so is \<^const>\<open>sort_key\<close>.\<close>

definition Scene_sort :: "store \<Rightarrow> Scene \<Rightarrow> Scene" where
  "Scene_sort h this = this\<lparr>shapes := sort_key (\<lambda>r. zIndex (h r)) (shapes this)\<rparr>"

definition add :: "store \<Rightarrow> Scene \<Rightarrow> ref \<Rightarrow> Scene" where
  "add h this shape =
     (let s1 = this\<lparr>shapes := shapes this @ [shape]\<rparr>;
          s2 = (if autoSort s1 then Scene_sort h s1 else s1)
      in s2\<lparr>quadTreeDirty := True\<rparr>)"

definition addMany :: "store \<Rightarrow> Scene \<Rightarrow> ref list \<Rightarrow> Scene" where
  "addMany h this rs =
     (let s1 = this\<lparr>shapes := shapes this @ rs\<rparr>
      in if autoSort s1 then Scene_sort h s1 else s1)"

text \<open>\<open>indexOf\<close> and \<open>splice(index, 1)\<close> take out the first occurrence: \<^const>\<open>remove1\<close>.\<close>

definition remove :: "Scene \<Rightarrow> ref \<Rightarrow> bool \<times> Scene" where
  "remove this shape =
     (if shape \<in> set (shapes this)
      then (True, this\<lparr>shapes := remove1 shape (shapes this), quadTreeDirty := True\<rparr>)
      else (False, this))"

definition removeMany :: "Scene \<Rightarrow> ref list \<Rightarrow> Scene" where
  "removeMany this rs =
     this\<lparr>shapes := fold (\<lambda>shape xs. if shape \<in> set xs then remove1 shape xs else xs)
                         rs (shapes this)\<rparr>"

definition findById :: "store \<Rightarrow> Scene \<Rightarrow> string \<Rightarrow> ref option" where
  "findById h this ident = find (\<lambda>shape. shapeId (h shape) = ident) (shapes this)"

definition rebuildQuadTreeIfNeeded :: "store \<Rightarrow> Scene \<Rightarrow> Scene" where
  "rebuildQuadTreeIfNeeded h this =
     (case quadTree this of
        None \<Rightarrow> this
      | Some qt \<Rightarrow>
          if \<not> quadTreeDirty this then this
          else this\<lparr>quadTree := Some (QuadTree_rebuild h qt (shapes this)),
                    quadTreeDirty := False\<rparr>)"

text \<open>
  The loop of \<open>Scene.hitTest\<close>, from the last candidate to the first: the first
  shape that is visible, not locked and passes its own \<open>hitTest\<close>. The argument is
  the list already reversed.
\<close>

fun topmostHit :: "store \<Rightarrow> ref list \<Rightarrow> Vector \<Rightarrow> error + ref option" where
  "topmostHit h [] point = Inr None"
| "topmostHit h (shape # rest) point =
     (if visible (h shape) \<and> \<not> locked (h shape) then
        (case hitTest (h shape) point of
           Inl err \<Rightarrow> Inl err
         | Inr hit \<Rightarrow> if hit then Inr (Some shape) else topmostHit h rest point)
      else topmostHit h rest point)"

definition Scene_hitTest :: "store \<Rightarrow> Scene \<Rightarrow> Vector \<Rightarrow> (error + ref option) \<times> Scene" where
  "Scene_hitTest h this point =
     (case (useQuadTree this, quadTree this) of
        (True, Some _) \<Rightarrow>
          (let this1 = rebuildQuadTreeIfNeeded h this;
               candidates = (case quadTree this1 of
                               Some qt \<Rightarrow> QuadTree_queryPoint h qt point
                             | None \<Rightarrow> [])
           in (topmostHit h (rev candidates) point, this1))
      | _ \<Rightarrow> (topmostHit h (rev (shapes this)) point, this))"

definition findInBounds :: "store \<Rightarrow> Scene \<Rightarrow> AABB \<Rightarrow> ref list \<times> Scene" where
  "findInBounds h this area =
     (case (useQuadTree this, quadTree this) of
        (True, Some _) \<Rightarrow>
          (let this1 = rebuildQuadTreeIfNeeded h this;
               found = (case quadTree this1 of
                          Some qt \<Rightarrow> QuadTree_query h qt area
                        | None \<Rightarrow> [])
           in (filter (\<lambda>shape. visible (h shape)) found, this1))
      | _ \<Rightarrow>
          (filter (\<lambda>shape. visible (h shape) \<and> intersects area (getBoundingBox (h shape)))
                  (shapes this),
           this))"

section \<open>Command log\<close>

subsection \<open>AddShapeCommand.ts, RemoveShapeCommand.ts, MoveShapeCommand.ts\<close>

text \<open>
  The state a command works on: the store of shape objects and the editor's scene.
  The command classes modelled are the three that cross the network boundary as
  add, remove and move; a command object is an element of the datatype, with the
  fields of its class. The classes not modelled (\<open>ModifyShapeCommand\<close>,
  \<open>TransformCommand\<close>, \<open>RotateCommand\<close>, \<open>ScaleCommand\<close>) inherit \<open>canMerge\<close> and
  \<open>merge\<close> from the base class, as the add and remove commands do.
\<close>

record World =
  shapeStore :: store
  scene :: Scene

datatype Command =
    AddShapeCommand ref
  | RemoveShapeCommand "ref list"
  | MoveShapeCommand "ref list" real real "ref \<rightharpoonup> Vector"

text \<open>The constructor of \<open>MoveShapeCommand\<close> records the position each shape has now.\<close>

definition mkMoveShapeCommand :: "store \<Rightarrow> ref list \<Rightarrow> real \<Rightarrow> real \<Rightarrow> Command" where
  "mkMoveShapeCommand h rs dx dy =
     MoveShapeCommand rs dx dy
       (fold (\<lambda>shape m. m(shape \<mapsto> mkVector (shapeX (h shape)) (shapeY (h shape))))
             rs Map.empty)"

definition moveBy :: "real \<Rightarrow> real \<Rightarrow> ref \<Rightarrow> store \<Rightarrow> store" where
  "moveBy dx dy shape h =
     h(shape := (h shape)\<lparr>shapeX := shapeX (h shape) + dx, shapeY := shapeY (h shape) + dy\<rparr>)"

definition restorePosition :: "(ref \<rightharpoonup> Vector) \<Rightarrow> ref \<Rightarrow> store \<Rightarrow> store" where
  "restorePosition old shape h =
     (case old shape of
        Some oldPos \<Rightarrow> h(shape := (h shape)\<lparr>shapeX := vx oldPos, shapeY := vy oldPos\<rparr>)
      | None \<Rightarrow> h)"

fun execute :: "Command \<Rightarrow> World \<Rightarrow> World" where
  "execute (AddShapeCommand shape) w = w\<lparr>scene := add (shapeStore w) (scene w) shape\<rparr>"
| "execute (RemoveShapeCommand rs) w = w\<lparr>scene := removeMany (scene w) rs\<rparr>"
| "execute (MoveShapeCommand rs dx dy old) w =
     w\<lparr>shapeStore := fold (moveBy dx dy) rs (shapeStore w)\<rparr>"

fun undo :: "Command \<Rightarrow> World \<Rightarrow> World" where
  "undo (AddShapeCommand shape) w = w\<lparr>scene := snd (remove (scene w) shape)\<rparr>"
| "undo (RemoveShapeCommand rs) w = w\<lparr>scene := addMany (shapeStore w) (scene w) rs\<rparr>"
| "undo (MoveShapeCommand rs dx dy old) w =
     w\<lparr>shapeStore := fold (restorePosition old) rs (shapeStore w)\<rparr>"

text \<open>
  \<open>canMerge this other\<close>: only \<open>MoveShapeCommand\<close> overrides the base-class method,
  which returns \<open>false\<close>.
\<close>

fun canMerge :: "Command \<Rightarrow> Command \<Rightarrow> bool" where
  "canMerge (MoveShapeCommand rs dx dy old) (MoveShapeCommand rs' dx' dy' old') =
     (length rs' = length rs \<and> list_all (\<lambda>s. s \<in> set rs) rs')"
| "canMerge this other = False"

text \<open>\<open>merge this other\<close> returns the updated \<open>this\<close>; the base class throws.\<close>

fun merge :: "Command \<Rightarrow> Command \<Rightarrow> error + Command" where
  "merge (MoveShapeCommand rs dx dy old) (MoveShapeCommand rs' dx' dy' old') =
     Inr (MoveShapeCommand rs (dx + dx') (dy + dy') old)"
| "merge (MoveShapeCommand rs dx dy old) other = Inr (MoveShapeCommand rs dx dy old)"
| "merge this other = Inl MergeNotImplemented"

subsection \<open>CommandManager.ts\<close>

text \<open>
  The stacks are lists whose last element is the top (\<open>push\<close> and \<open>pop\<close> work at
  the end, \<open>shift\<close> drops the head). A command object passed to \<open>execute\<close> is a
  fresh object: the stacks hold values, not aliases. The state-change callback is
  a listener of another component and is not part of the model.
\<close>

record CommandManager =
  undoStack :: "Command list"
  redoStack :: "Command list"
  maxHistory :: int

definition mkCommandManager :: "int option \<Rightarrow> CommandManager" where
  "mkCommandManager optMaxHistory =
     \<lparr>undoStack = [], redoStack = [],
      maxHistory = (case optMaxHistory of Some n \<Rightarrow> n | None \<Rightarrow> 100)\<rparr>"

definition pushUndo :: "CommandManager \<Rightarrow> Command \<Rightarrow> CommandManager" where
  "pushUndo this command =
     (let us = undoStack this @ [command] in
      this\<lparr>undoStack := (if int (length us) > maxHistory this then tl us else us)\<rparr>)"

text \<open>
  \<open>CommandManager.execute\<close>. A throw of \<open>merge\<close> leaves \<open>execute\<close> after the command
  has run and before the stacks are touched: \<open>Inl\<close> carries the error and that
  state.
\<close>

definition CommandManager_execute ::
  "Command \<Rightarrow> CommandManager \<times> World
     \<Rightarrow> (error \<times> CommandManager \<times> World) + (CommandManager \<times> World)" where
  "CommandManager_execute command st =
     (let this = fst st;
          w1 = execute command (snd st);
          lastCommand = (if undoStack this = [] then None else Some (last (undoStack this)))
      in case lastCommand of
           None \<Rightarrow> Inr ((pushUndo this command)\<lparr>redoStack := []\<rparr>, w1)
         | Some lc \<Rightarrow>
             if canMerge command lc then
               (case merge lc command of
                  Inl err \<Rightarrow> Inl (err, this, w1)
                | Inr lc' \<Rightarrow>
                    Inr (this\<lparr>undoStack := butlast (undoStack this) @ [lc'],
                              redoStack := []\<rparr>, w1))
             else Inr ((pushUndo this command)\<lparr>redoStack := []\<rparr>, w1))"

definition CommandManager_undo :: "CommandManager \<times> World \<Rightarrow> CommandManager \<times> World" where
  "CommandManager_undo st =
     (let this = fst st in
      if undoStack this = [] then st
      else
        (let command = last (undoStack this) in
         (this\<lparr>undoStack := butlast (undoStack this),
               redoStack := redoStack this @ [command]\<rparr>,
          undo command (snd st))))"

definition CommandManager_redo :: "CommandManager \<times> World \<Rightarrow> CommandManager \<times> World" where
  "CommandManager_redo st =
     (let this = fst st in
      if redoStack this = [] then st
      else
        (let command = last (redoStack this) in
         (this\<lparr>redoStack := butlast (redoStack this),
               undoStack := undoStack this @ [command]\<rparr>,
          execute command (snd st))))"

definition canUndo :: "CommandManager \<Rightarrow> bool" where
  "canUndo this \<longleftrightarrow> length (undoStack this) > 0"

definition canRedo :: "CommandManager \<Rightarrow> bool" where
  "canRedo this \<longleftrightarrow> length (redoStack this) > 0"

subsection \<open>Predicates and scenarios used to state the properties of the command log\<close>

text \<open>
  The bound on the history: the two stacks together never hold more than
  \<open>maxHistory\<close> commands.
\<close>

definition historyBounded :: "CommandManager \<Rightarrow> bool" where
  "historyBounded this \<longleftrightarrow>
     int (length (undoStack this)) + int (length (redoStack this)) \<le> maxHistory this"

text \<open>
  Successive move commands on the same shapes, each constructed against the store
  as it is when the command is executed, that is, before its move is applied.
\<close>

fun executeMoves ::
  "ref list \<Rightarrow> (real \<times> real) list \<Rightarrow> CommandManager \<times> World
     \<Rightarrow> (error \<times> CommandManager \<times> World) + (CommandManager \<times> World)" where
  "executeMoves rs [] st = Inr st"
| "executeMoves rs (d # ds) st =
     (case CommandManager_execute (mkMoveShapeCommand (shapeStore (snd st)) rs (fst d) (snd d)) st of
        Inl err \<Rightarrow> Inl err
      | Inr st' \<Rightarrow> executeMoves rs ds st')"

text \<open>
  \<open>h'\<close> differs from \<open>h\<close> at most in the position fields of the shapes of \<open>rs\<close>.
\<close>

definition positionsOnly :: "ref list \<Rightarrow> store \<Rightarrow> store \<Rightarrow> bool" where
  "positionsOnly rs h h' \<longleftrightarrow>
     (\<forall>r. (r \<notin> set rs \<longrightarrow> h' r = h r) \<and>
          (\<exists>px py. h' r = (h r)\<lparr>shapeX := px, shapeY := py\<rparr>))"

text \<open>The state a call leaves behind, whether it has thrown or not.\<close>

definition stateAfter :: "(error \<times> 'a) + 'a \<Rightarrow> 'a" where
  "stateAfter res = (case res of Inl thrown \<Rightarrow> snd thrown | Inr st \<Rightarrow> st)"

text \<open>With \<open>autoSort\<close> on, the scene list is in the order \<open>Scene.sort\<close> leaves it in.\<close>

definition zOrdered :: "World \<Rightarrow> bool" where
  "zOrdered w \<longleftrightarrow>
     \<not> autoSort (scene w) \<or> sorted (map (\<lambda>r. zIndex (shapeStore w r)) (shapes (scene w)))"

text \<open>
  A concrete editor state: three rectangles in the store, the first of them in a
  scene constructed with the default options.
\<close>

definition exampleStore :: store where
  "exampleStore =
     (\<lambda>r. mkRect [] 0 0 0 0)
       (1 := mkRect ''s1'' 100 100 20 20,
        2 := mkRect ''s2'' 0 0 20 20,
        3 := mkRect ''s3'' 0 0 20 20)"

definition exampleWorld :: World where
  "exampleWorld =
     \<lparr>shapeStore = exampleStore, scene = add exampleStore (mkScene None None None) 1\<rparr>"

text \<open>The three rectangles in a scene constructed with the default options.\<close>

definition threeShapeWorld :: World where
  "threeShapeWorld =
     \<lparr>shapeStore = exampleStore,
      scene = add exampleStore (add exampleStore (add exampleStore (mkScene None None None) 1) 2) 3\<rparr>"

text \<open>
  A scene with the quadtree enabled that holds the second rectangle, and the same
  scene after a first point query has rebuilt the index.
\<close>

definition indexedScene :: Scene where
  "indexedScene = add exampleStore (mkScene None (Some True) None) 2"

definition queriedScene :: Scene where
  "queriedScene = snd (Scene_hitTest exampleStore indexedScene (mkVector 0 0))"

section \<open>Select tool (SelectTool.ts)\<close>

text \<open>
  The tool that moves the selected shapes. Its state: the mode, the last pointer
  position of the gesture, the selection, the corners of the selection box and the
  total offset of the drag (\<open>totalDragDelta\<close>, the pair of \<open>dx\<close> and \<open>dy\<close>). The
  transform gesture works through \<open>TransformHandle\<close>, which is outside this model:
  \<open>onHandle\<close> says whether the pointer went down on a handle of the selection, and
  a pointer move in the mode \<open>TRANSFORMING\<close> is not represented. The editor is the
  command manager, the shapes with their scene, and the tool. A move command keeps
  the selection array it was constructed with; the model copies the list, and the
  drags evaluated below do not change the selection.
\<close>

datatype SelectMode = IDLE | DRAGGING | BOX_SELECT | TRANSFORMING

record ToolEvent =
  point :: Vector
  shiftKey :: bool

record SelectTool =
  mode :: SelectMode
  startPoint :: "Vector option"
  selectedShapes :: "ref list"
  boxSelectStart :: "Vector option"
  boxSelectEnd :: "Vector option"
  totalDragDelta :: "real \<times> real"

definition mkSelectTool :: SelectTool where
  "mkSelectTool =
     \<lparr>mode = IDLE, startPoint = None, selectedShapes = [], boxSelectStart = None,
      boxSelectEnd = None, totalDragDelta = (0, 0)\<rparr>"

record Editor =
  commandManager :: CommandManager
  editorWorld :: World
  selectTool :: SelectTool

definition toggleSelection :: "ref \<Rightarrow> SelectTool \<Rightarrow> SelectTool" where
  "toggleSelection shape this =
     (if shape \<in> set (selectedShapes this)
      then this\<lparr>selectedShapes := remove1 shape (selectedShapes this)\<rparr>
      else this\<lparr>selectedShapes := selectedShapes this @ [shape]\<rparr>)"

text \<open>
  \<open>onPointerDown\<close>: on a shape, the shape is selected and the drag begins with a
  total offset of zero; elsewhere, the selection box begins.
\<close>

definition onPointerDown :: "bool \<Rightarrow> ToolEvent \<Rightarrow> Editor \<Rightarrow> (error \<times> Editor) + Editor" where
  "onPointerDown onHandle event ed =
     (let this = selectTool ed in
      if selectedShapes this \<noteq> [] \<and> onHandle then
        Inr (ed\<lparr>selectTool := this\<lparr>mode := TRANSFORMING\<rparr>\<rparr>)
      else
        (let tested = Scene_hitTest (shapeStore (editorWorld ed)) (scene (editorWorld ed)) (point event);
             ed1 = ed\<lparr>editorWorld := (editorWorld ed)\<lparr>scene := snd tested\<rparr>\<rparr>
         in case fst tested of
              Inl err \<Rightarrow> Inl (err, ed1)
            | Inr (Some hitShape) \<Rightarrow>
                Inr (ed1\<lparr>selectTool :=
                       (if shiftKey event then toggleSelection hitShape this
                        else if hitShape \<notin> set (selectedShapes this)
                        then this\<lparr>selectedShapes := [hitShape]\<rparr>
                        else this)
                       \<lparr>mode := DRAGGING, startPoint := Some (point event),
                        totalDragDelta := (0, 0)\<rparr>\<rparr>)
            | Inr None \<Rightarrow>
                Inr (ed1\<lparr>selectTool :=
                       (if \<not> shiftKey event then this\<lparr>selectedShapes := []\<rparr> else this)
                       \<lparr>mode := BOX_SELECT, boxSelectStart := Some (point event),
                        boxSelectEnd := Some (point event)\<rparr>\<rparr>)))"

text \<open>
  \<open>handleDrag\<close> moves the selected shapes at once, as a preview, and adds the step
  to the total offset.
\<close>

definition handleDrag :: "ToolEvent \<Rightarrow> Editor \<Rightarrow> Editor" where
  "handleDrag event ed =
     (let this = selectTool ed in
      case startPoint this of
        None \<Rightarrow> ed
      | Some start \<Rightarrow>
          (let ddx = vx (point event) - vx start;
               ddy = vy (point event) - vy start
           in ed\<lparr>editorWorld := (editorWorld ed)
                    \<lparr>shapeStore := fold (moveBy ddx ddy) (selectedShapes this)
                                        (shapeStore (editorWorld ed))\<rparr>,
                  selectTool := this
                    \<lparr>totalDragDelta := (fst (totalDragDelta this) + ddx,
                                         snd (totalDragDelta this) + ddy),
                     startPoint := Some (point event)\<rparr>\<rparr>))"

definition handleBoxSelect :: "ToolEvent \<Rightarrow> Editor \<Rightarrow> Editor" where
  "handleBoxSelect event ed =
     (let this = selectTool ed in
      case boxSelectStart this of
        None \<Rightarrow> ed
      | Some start \<Rightarrow>
          (let selectBounds = mkAABB (min (vx start) (vx (point event)))
                                     (min (vy start) (vy (point event)))
                                     (max (vx start) (vx (point event)))
                                     (max (vy start) (vy (point event)));
               found = findInBounds (shapeStore (editorWorld ed)) (scene (editorWorld ed)) selectBounds
           in ed\<lparr>editorWorld := (editorWorld ed)\<lparr>scene := snd found\<rparr>,
                  selectTool := this\<lparr>boxSelectEnd := Some (point event),
                                     selectedShapes := fst found\<rparr>\<rparr>))"

definition onPointerMove :: "ToolEvent \<Rightarrow> Editor \<Rightarrow> Editor" where
  "onPointerMove event ed =
     (case mode (selectTool ed) of
        DRAGGING \<Rightarrow> handleDrag event ed
      | BOX_SELECT \<Rightarrow> handleBoxSelect event ed
      | TRANSFORMING \<Rightarrow> ed
      | IDLE \<Rightarrow> ed)"

text \<open>
  \<open>onPointerUp\<close>, at the end of a drag: the move command is constructed first,
  while the shapes are where the preview has put them; then the shapes are moved
  back by the total offset; then the command is executed.
\<close>

definition moveBack :: "real \<Rightarrow> real \<Rightarrow> ref \<Rightarrow> store \<Rightarrow> store" where
  "moveBack ddx ddy shape h =
     h(shape := (h shape)\<lparr>shapeX := shapeX (h shape) - ddx, shapeY := shapeY (h shape) - ddy\<rparr>)"

definition onPointerUp :: "ToolEvent \<Rightarrow> Editor \<Rightarrow> (error \<times> Editor) + Editor" where
  "onPointerUp event ed =
     (let this = selectTool ed;
          finish = (\<lambda>e. e\<lparr>selectTool := (selectTool e)\<lparr>mode := IDLE, startPoint := None\<rparr>\<rparr>)
      in case mode this of
           BOX_SELECT \<Rightarrow>
             Inr (finish (ed\<lparr>selectTool := this\<lparr>boxSelectStart := None, boxSelectEnd := None\<rparr>\<rparr>))
         | DRAGGING \<Rightarrow>
             if selectedShapes this \<noteq> [] \<and>
                (\<bar>fst (totalDragDelta this)\<bar> > 0.01 \<or> \<bar>snd (totalDragDelta this)\<bar> > 0.01)
             then
               (let command = mkMoveShapeCommand (shapeStore (editorWorld ed)) (selectedShapes this)
                                (fst (totalDragDelta this)) (snd (totalDragDelta this));
                    w1 = (editorWorld ed)
                           \<lparr>shapeStore := fold (moveBack (fst (totalDragDelta this))
                                                         (snd (totalDragDelta this)))
                                               (selectedShapes this) (shapeStore (editorWorld ed))\<rparr>
                in case CommandManager_execute command (commandManager ed, w1) of
                     Inl thrown \<Rightarrow>
                       Inl (fst thrown,
                            finish (ed\<lparr>commandManager := fst (snd thrown),
                                        editorWorld := snd (snd thrown)\<rparr>))
                   | Inr st \<Rightarrow>
                       Inr (finish (ed\<lparr>commandManager := fst st, editorWorld := snd st\<rparr>)))
             else Inr (finish ed)
         | TRANSFORMING \<Rightarrow> Inr (finish ed)
         | IDLE \<Rightarrow> Inr (finish ed))"

text \<open>
  One drag from \<open>p\<close> to \<open>q\<close>: pointer down at \<open>p\<close>, one move to \<open>q\<close>, pointer up.
  Three drags by \<open>(10, 5)\<close> of the rectangle \<open>s1\<close> of the example, each starting on
  the rectangle where the drag before has left it.
\<close>

definition dragGesture :: "Vector \<Rightarrow> Vector \<Rightarrow> Editor \<Rightarrow> Editor" where
  "dragGesture p q ed =
     stateAfter (onPointerUp \<lparr>point = q, shiftKey = False\<rparr>
       (onPointerMove \<lparr>point = q, shiftKey = False\<rparr>
          (stateAfter (onPointerDown False \<lparr>point = p, shiftKey = False\<rparr> ed))))"

definition exampleEditor :: Editor where
  "exampleEditor =
     \<lparr>commandManager = mkCommandManager None, editorWorld = exampleWorld, selectTool = mkSelectTool\<rparr>"

definition afterDrag1 :: Editor where
  "afterDrag1 = dragGesture (mkVector 100 100) (mkVector 110 105) exampleEditor"

definition afterDrag2 :: Editor where
  "afterDrag2 = dragGesture (mkVector 110 105) (mkVector 120 110) afterDrag1"

definition afterDrag3 :: Editor where
  "afterDrag3 = dragGesture (mkVector 120 110) (mkVector 130 115) afterDrag2"

text \<open>The example with \<open>s1\<close> at another position, and the tool as a drag leaves it.\<close>

definition draggedWorld :: "real \<Rightarrow> real \<Rightarrow> World" where
  "draggedWorld px py =
     exampleWorld\<lparr>shapeStore := exampleStore(1 := mkRect ''s1'' px py 20 20)\<rparr>"

definition draggedTool :: SelectTool where
  "draggedTool = mkSelectTool\<lparr>selectedShapes := [1], totalDragDelta := (10, 5)\<rparr>"

section \<open>Synchronization, client side (useCollaboration.ts)\<close>

subsection \<open>Shape JSON and the shape factory\<close>

text \<open>
  The JSON form of a shape. A field is \<open>None\<close> when the key is absent or its value
  does not have the type that \<open>fromJSON\<close> tests for with \<open>typeof\<close>.
\<close>

record ShapeJSON =
  jsonType :: string
  jsonId :: "string option"
  jsonName :: "string option"
  jsonX :: "real option"
  jsonY :: "real option"
  jsonWidth :: "real option"
  jsonHeight :: "real option"
  jsonCornerRadius :: "real option"
  jsonRadius :: "real option"
  jsonRotation :: "real option"
  jsonScaleX :: "real option"
  jsonScaleY :: "real option"
  jsonVisible :: "bool option"
  jsonLocked :: "bool option"
  jsonZIndex :: "real option"

text \<open>\<open>Rect.toJSON\<close> and \<open>Circle.toJSON\<close>\<close>

definition toJSON :: "Shape \<Rightarrow> ShapeJSON" where
  "toJSON this =
     \<lparr>jsonType = (case geometry this of RectGeom w h r \<Rightarrow> ''Rect'' | CircleGeom r \<Rightarrow> ''Circle''),
      jsonId = Some (shapeId this),
      jsonName = Some (shapeName this),
      jsonX = Some (shapeX this),
      jsonY = Some (shapeY this),
      jsonWidth = (case geometry this of RectGeom w h r \<Rightarrow> Some w | CircleGeom r \<Rightarrow> None),
      jsonHeight = (case geometry this of RectGeom w h r \<Rightarrow> Some h | CircleGeom r \<Rightarrow> None),
      jsonCornerRadius = (case geometry this of RectGeom w h r \<Rightarrow> Some r | CircleGeom r \<Rightarrow> None),
      jsonRadius = (case geometry this of RectGeom w h r \<Rightarrow> None | CircleGeom r \<Rightarrow> Some r),
      jsonRotation = Some (rotation this),
      jsonScaleX = Some (scaleX this),
      jsonScaleY = Some (scaleY this),
      jsonVisible = Some (visible this),
      jsonLocked = Some (locked this),
      jsonZIndex = Some (zIndex this)\<rparr>"

definition orElse :: "'a option \<Rightarrow> 'a \<Rightarrow> 'a" where
  "orElse v d = (case v of Some a \<Rightarrow> a | None \<Rightarrow> d)"

text \<open>
  The part of \<open>fromJSON\<close> and of the constructors shared by both variants. The id is
  \<open>options.id || uuidv4()\<close> and the name \<open>options.name || default\<close>: an empty string
  counts as absent. \<open>uuid\<close> is what \<open>uuidv4()\<close> returns when it is called.
  \<open>fromJSON\<close> does not read \<open>visible\<close>, \<open>locked\<close> and \<open>zIndex\<close>.
\<close>

definition shapeFromJSON :: "string \<Rightarrow> string \<Rightarrow> Geometry \<Rightarrow> ShapeJSON \<Rightarrow> Shape" where
  "shapeFromJSON uuid defaultName geom json =
     \<lparr>shapeId = (case jsonId json of Some i \<Rightarrow> if i = [] then uuid else i | None \<Rightarrow> uuid),
      shapeName = (case jsonName json of
                     Some n \<Rightarrow> if n = [] then defaultName else n
                   | None \<Rightarrow> defaultName),
      shapeX = orElse (jsonX json) 0,
      shapeY = orElse (jsonY json) 0,
      rotation = orElse (jsonRotation json) 0,
      scaleX = orElse (jsonScaleX json) 1,
      scaleY = orElse (jsonScaleY json) 1,
      visible = True, locked = False, selected = False, zIndex = 0,
      geometry = geom\<rparr>"

definition Rect_fromJSON :: "string \<Rightarrow> ShapeJSON \<Rightarrow> Shape" where
  "Rect_fromJSON uuid json =
     shapeFromJSON uuid ''Rectangle''
       (RectGeom (orElse (jsonWidth json) 100) (orElse (jsonHeight json) 100)
                 (orElse (jsonCornerRadius json) 0))
       json"

definition Circle_fromJSON :: "string \<Rightarrow> ShapeJSON \<Rightarrow> Shape" where
  "Circle_fromJSON uuid json =
     shapeFromJSON uuid ''Circle'' (CircleGeom (orElse (jsonRadius json) 50)) json"

text \<open>
  \<open>createShapeFromJSON\<close>. The tags \<open>Line\<close>, \<open>Text\<close> and \<open>Group\<close> name variants that
  are outside this model; JSON carrying them is not represented, and the model
  answers for them as for an unknown tag.
\<close>

definition createShapeFromJSON :: "string \<Rightarrow> ShapeJSON \<Rightarrow> error + Shape" where
  "createShapeFromJSON uuid json =
     (if jsonType json = ''Rect'' then Inr (Rect_fromJSON uuid json)
      else if jsonType json = ''Circle'' then Inr (Circle_fromJSON uuid json)
      else Inl UnknownShapeType)"

text \<open>\<open>createShapeFromData\<close> catches the error and returns \<open>null\<close>.\<close>

definition createShapeFromData :: "string \<Rightarrow> ShapeJSON \<Rightarrow> Shape option" where
  "createShapeFromData uuid json =
     (case createShapeFromJSON uuid json of Inl err \<Rightarrow> None | Inr shape \<Rightarrow> Some shape)"

subsection \<open>The command payload\<close>

text \<open>
  \<open>data.operation.command\<close> on the wire. A key whose value is \<open>undefined\<close> is
  dropped by \<open>JSON.stringify\<close>, so it is \<open>None\<close> for the receiver.
\<close>

record CommandData =
  cmdType :: string
  cmdShape :: "ShapeJSON option"
  cmdShapeIds :: "string list option"
  cmdShapeId :: "string option"
  cmdDelta :: "Vector option"

definition mkCommandData :: "string \<Rightarrow> CommandData" where
  "mkCommandData ty =
     \<lparr>cmdType = ty, cmdShape = None, cmdShapeIds = None, cmdShapeId = None, cmdDelta = None\<rparr>"

text \<open>
  What the listener reads from a command object: \<open>command.constructor.name\<close>,
  \<open>command.shape\<close>, \<open>command.shapes\<close> and \<open>command.delta\<close>. \<open>AddShapeCommand\<close> has the
  field \<open>shape\<close>, \<open>RemoveShapeCommand\<close> the field \<open>shapesToRemove\<close>, and
  \<open>MoveShapeCommand\<close> the fields \<open>shapes\<close>, \<open>dx\<close> and \<open>dy\<close>; a field a class does not
  have reads as \<open>undefined\<close>.
\<close>

fun constructorName :: "Command \<Rightarrow> string" where
  "constructorName (AddShapeCommand shape) = ''AddShapeCommand''"
| "constructorName (RemoveShapeCommand rs) = ''RemoveShapeCommand''"
| "constructorName (MoveShapeCommand rs dx dy old) = ''MoveShapeCommand''"

fun shapeField :: "Command \<Rightarrow> ref option" where
  "shapeField (AddShapeCommand shape) = Some shape"
| "shapeField command = None"

fun shapesField :: "Command \<Rightarrow> ref list option" where
  "shapesField (MoveShapeCommand rs dx dy old) = Some rs"
| "shapesField command = None"

fun deltaField :: "Command \<Rightarrow> Vector option" where
  "deltaField command = None"

text \<open>
  The payload built in \<open>setupLocalChangeListener\<close> after the original \<open>execute\<close> has
  run; \<open>h\<close> is the store at that moment.
\<close>

definition commandDataOf :: "store \<Rightarrow> Command \<Rightarrow> CommandData" where
  "commandDataOf h command =
     (if constructorName command = ''AddShapeCommand'' \<and> shapeField command \<noteq> None then
        (mkCommandData ''add-shape'')
          \<lparr>cmdShape := map_option (\<lambda>shape. toJSON (h shape)) (shapeField command)\<rparr>
      else if constructorName command = ''RemoveShapeCommand'' \<and> shapesField command \<noteq> None then
        (mkCommandData ''remove-shape'')
          \<lparr>cmdShapeIds := map_option (map (\<lambda>s. shapeId (h s))) (shapesField command)\<rparr>
      else if constructorName command = ''MoveShapeCommand'' then
        (mkCommandData ''move-shape'')
          \<lparr>cmdShapeId := map_option (\<lambda>shape. shapeId (h shape)) (shapeField command),
            cmdDelta := deltaField command\<rparr>
      else mkCommandData (constructorName command))"

subsection \<open>Applying a remote command\<close>

text \<open>
  A client: its editor state, the next free reference for a shape object created on
  this client, and the guard flag.
\<close>

record Client =
  world :: World
  nextRef :: ref
  isReceivingRemoteChange :: bool

definition removeById :: "string \<Rightarrow> World \<Rightarrow> World" where
  "removeById ident w =
     (case findById (shapeStore w) (scene w) ident of
        Some shape \<Rightarrow> w\<lparr>scene := snd (remove (scene w) shape)\<rparr>
      | None \<Rightarrow> w)"

text \<open>The \<open>switch\<close> of \<open>handleRemoteCommand\<close>, on the editor state.\<close>

definition applyRemote :: "string \<Rightarrow> CommandData \<Rightarrow> Client \<Rightarrow> Client" where
  "applyRemote uuid cmd c =
     (let w = world c in
      if cmdType cmd = ''add-shape'' then
        (case cmdShape cmd of
           None \<Rightarrow> c
         | Some json \<Rightarrow>
             (case createShapeFromData uuid json of
                None \<Rightarrow> c
              | Some shape \<Rightarrow>
                  (let h = (shapeStore w)(nextRef c := shape) in
                   c\<lparr>world := \<lparr>shapeStore = h, scene = add h (scene w) (nextRef c)\<rparr>,
                     nextRef := Suc (nextRef c)\<rparr>)))
      else if cmdType cmd = ''remove-shape'' \<or> cmdType cmd = ''delete-shape'' then
        (case cmdShapeIds cmd of
           Some ids \<Rightarrow> c\<lparr>world := fold removeById ids w\<rparr>
         | None \<Rightarrow>
             (case cmdShapeId cmd of
                None \<Rightarrow> c
              | Some ident \<Rightarrow> if ident = [] then c else c\<lparr>world := removeById ident w\<rparr>))
      else if cmdType cmd = ''move-shape'' then
        (case (cmdShapeId cmd, cmdDelta cmd) of
           (Some ident, Some delta) \<Rightarrow>
             (if ident = [] then c
              else
                (case findById (shapeStore w) (scene w) ident of
                   None \<Rightarrow> c
                 | Some shape \<Rightarrow>
                     c\<lparr>world := w\<lparr>shapeStore := moveBy (vx delta) (vy delta) shape (shapeStore w)\<rparr>\<rparr>))
         | _ \<Rightarrow> c)
      else c)"

text \<open>
  \<open>handleRemoteCommand\<close>: \<open>data\<close> is \<open>None\<close> when \<open>data.operation?.command\<close> is
  missing. The guard flag is set for the duration of the call.
\<close>

definition handleRemoteCommand :: "string \<Rightarrow> CommandData option \<Rightarrow> Client \<Rightarrow> Client" where
  "handleRemoteCommand uuid data c =
     (if isReceivingRemoteChange c then c
      else
        (case data of
           None \<Rightarrow> c
         | Some cmd \<Rightarrow>
             (applyRemote uuid cmd (c\<lparr>isReceivingRemoteChange := True\<rparr>))
               \<lparr>isReceivingRemoteChange := False\<rparr>))"

text \<open>
  Client A executes \<open>command\<close> locally and broadcasts; the relay passes the payload
  on unchanged, and client B applies it. Both results: A's editor state and B's.
\<close>

definition executeAndSync ::
  "string \<Rightarrow> Command \<Rightarrow> CommandManager \<times> World \<Rightarrow> Client \<Rightarrow> World \<times> Client" where
  "executeAndSync uuid command a b =
     (let a' = stateAfter (CommandManager_execute command a)
      in (snd a', handleRemoteCommand uuid (Some (commandDataOf (shapeStore (snd a')) command)) b))"

text \<open>The position of the shape with the given id, if the scene holds one.\<close>

definition positionOf :: "World \<Rightarrow> string \<Rightarrow> (real \<times> real) option" where
  "positionOf w ident =
     map_option (\<lambda>shape. (shapeX (shapeStore w shape), shapeY (shapeStore w shape)))
                (findById (shapeStore w) (scene w) ident)"

definition exampleClient :: Client where
  "exampleClient = \<lparr>world = exampleWorld, nextRef = 4, isReceivingRemoteChange = False\<rparr>"

section \<open>Synchronization, server side\<close>

subsection \<open>Room.js, Operation.js, RoomService.js\<close>

text \<open>
  The persisted room record and the operation log. Timestamps (\<open>createdAt\<close>,
  \<open>updatedAt\<close>, \<open>joinedAt\<close>, \<open>timestamp\<close>) are left out. The \<open>data\<close> of a stored shape
  is what the last writer put there: the shape JSON (\<open>addShape\<close>) or the whole
  command payload (\<open>updateShape\<close>).
\<close>

datatype StoredData = ShapeData ShapeJSON | UpdateData CommandData

record ShapeWrapper =
  wrapId :: "string option"
  wrapType :: string
  wrapData :: StoredData

record UserData =
  userName :: string
  userColor :: string

record RoomUser =
  ruUserId :: string
  ruData :: "UserData option"

record Room =
  roomId :: string
  roomName :: string
  roomShapes :: "ShapeWrapper list"
  roomUsers :: "RoomUser list"
  version :: int

record OperationRecord =
  opRoomId :: string
  opUserId :: string
  opType :: string
  opData :: CommandData

text \<open>
  The database: the rooms by id, the operation log, and whether the connection is
  up. A call made while the connection is down is rejected; that is the one way a
  call can fail that the code itself does not decide.
\<close>

record Database =
  roomsTable :: "string \<rightharpoonup> Room"
  operationsLog :: "OperationRecord list"
  dbConnected :: bool

definition newRoom :: "string \<Rightarrow> Room" where
  "newRoom rid =
     \<lparr>roomId = rid, roomName = ''Untitled Room'', roomShapes = [], roomUsers = [], version = 0\<rparr>"

text \<open>The room a \<open>findOneAndUpdate\<close> with \<open>upsert\<close> works on.\<close>

definition roomOrNew :: "Database \<Rightarrow> string \<Rightarrow> Room" where
  "roomOrNew db rid = (case roomsTable db rid of Some room \<Rightarrow> room | None \<Rightarrow> newRoom rid)"

definition RoomService_getRoom :: "Database \<Rightarrow> string \<Rightarrow> error + (Room \<times> Database)" where
  "RoomService_getRoom db rid =
     (if \<not> dbConnected db then Inl DbUnavailable
      else
        (case roomsTable db rid of
           Some room \<Rightarrow> Inr (room, db)
         | None \<Rightarrow> Inr (newRoom rid, db\<lparr>roomsTable := (roomsTable db)(rid \<mapsto> newRoom rid)\<rparr>)))"

definition RoomService_addShape :: "Database \<Rightarrow> string \<Rightarrow> ShapeWrapper \<Rightarrow> error + Database" where
  "RoomService_addShape db rid shapeData =
     (if \<not> dbConnected db then Inl DbUnavailable
      else
        (let room = roomOrNew db rid in
         Inr (db\<lparr>roomsTable := (roomsTable db)
                (rid \<mapsto> room\<lparr>roomShapes := roomShapes room @ [shapeData],
                              version := version room + 1\<rparr>)\<rparr>)))"

text \<open>
  \<open>updateShape\<close> replaces the data of the first stored shape with the given id and
  \<open>deleteShape\<close> pulls every stored shape with that id. A \<open>shapeId\<close> that is missing
  from the payload is taken to match no stored shape.
\<close>

fun setFirstData :: "string \<Rightarrow> StoredData \<Rightarrow> ShapeWrapper list \<Rightarrow> ShapeWrapper list" where
  "setFirstData ident d [] = []"
| "setFirstData ident d (w # ws) =
     (if wrapId w = Some ident then w\<lparr>wrapData := d\<rparr> # ws else w # setFirstData ident d ws)"

definition RoomService_updateShape ::
  "Database \<Rightarrow> string \<Rightarrow> string option \<Rightarrow> CommandData \<Rightarrow> error + Database" where
  "RoomService_updateShape db rid ident updates =
     (if \<not> dbConnected db then Inl DbUnavailable
      else
        (case (roomsTable db rid, ident) of
           (Some room, Some i) \<Rightarrow>
             if list_ex (\<lambda>w. wrapId w = Some i) (roomShapes room) then
               Inr (db\<lparr>roomsTable := (roomsTable db)
                      (rid \<mapsto> room\<lparr>roomShapes := setFirstData i (UpdateData updates) (roomShapes room),
                                    version := version room + 1\<rparr>)\<rparr>)
             else Inr db
         | _ \<Rightarrow> Inr db))"

definition RoomService_deleteShape :: "Database \<Rightarrow> string \<Rightarrow> string option \<Rightarrow> error + Database" where
  "RoomService_deleteShape db rid ident =
     (if \<not> dbConnected db then Inl DbUnavailable
      else
        (case roomsTable db rid of
           Some room \<Rightarrow>
             Inr (db\<lparr>roomsTable := (roomsTable db)
                    (rid \<mapsto> room\<lparr>roomShapes :=
                                     filter (\<lambda>w. ident = None \<or> wrapId w \<noteq> ident) (roomShapes room),
                                  version := version room + 1\<rparr>)\<rparr>)
         | None \<Rightarrow> Inr db))"

text \<open>
  \<open>addUser\<close>: every entry carries its own \<open>joinedAt\<close>, so \<open>$addToSet\<close> appends.
\<close>

definition RoomService_addUser :: "Database \<Rightarrow> string \<Rightarrow> RoomUser \<Rightarrow> error + Database" where
  "RoomService_addUser db rid user =
     (if \<not> dbConnected db then Inl DbUnavailable
      else
        (let room = roomOrNew db rid in
         Inr (db\<lparr>roomsTable := (roomsTable db)
                (rid \<mapsto> room\<lparr>roomUsers := roomUsers room @ [user]\<rparr>)\<rparr>)))"

text \<open>
  \<open>saveOperation\<close> validates the document against the schema before it is written:
  \<open>roomId\<close> is required and \<open>type\<close> must be one of the values of the \<open>enum\<close>.
\<close>

definition operationTypes :: "string list" where
  "operationTypes =
     [''add-shape'', ''update-shape'', ''delete-shape'', ''move-shape'', ''resize-shape'',
      ''rotate-shape'']"

definition RoomService_saveOperation ::
  "Database \<Rightarrow> string \<Rightarrow> string \<Rightarrow> string \<Rightarrow> CommandData \<Rightarrow> error + Database" where
  "RoomService_saveOperation db rid uid ty d =
     (if rid = [] \<or> ty \<notin> set operationTypes then Inl ValidationError
      else if \<not> dbConnected db then Inl DbUnavailable
      else Inr (db\<lparr>operationsLog := operationsLog db @
                     [\<lparr>opRoomId = rid, opUserId = uid, opType = ty, opData = d\<rparr>]\<rparr>))"

text \<open>The shapes of the persisted record of a room; none when there is no record.\<close>

definition persistedShapes :: "Database \<Rightarrow> string \<Rightarrow> ShapeWrapper list" where
  "persistedShapes db rid = roomShapes (roomOrNew db rid)"

subsection \<open>WebSocketService.js\<close>

text \<open>
  A connection is identified by a number. The server state holds the client
  registry, the connection set of each room in insertion order, the database, the
  \<open>readyState\<close> of each connection and, as the record of what \<open>send\<close> has done, the
  messages sent on each connection.
\<close>

type_synonym ws = nat

record ClientInfo =
  ciUserId :: string
  ciRoomId :: string
  ciUser :: "UserData option"

datatype ServerMessage =
    InitSync "UserData list" "ShapeWrapper list" int
  | JoinMsg string "UserData option"
  | LeaveMsg string
  | CommandMsg string CommandData

record Server =
  clients :: "ws \<rightharpoonup> ClientInfo"
  rooms :: "string \<rightharpoonup> ws list"
  database :: Database
  readyState :: "ws \<Rightarrow> nat"
  outbox :: "ws \<Rightarrow> ServerMessage list"

definition members :: "Server \<Rightarrow> string \<Rightarrow> ws list" where
  "members st rid = (case rooms st rid of Some ms \<Rightarrow> ms | None \<Rightarrow> [])"

definition deliver :: "ws \<Rightarrow> ServerMessage \<Rightarrow> Server \<Rightarrow> Server" where
  "deliver client msg st = st\<lparr>outbox := (outbox st)(client := outbox st client @ [msg])\<rparr>"

definition send :: "ws \<Rightarrow> ServerMessage \<Rightarrow> Server \<Rightarrow> Server" where
  "send client msg st = (if readyState st client = 1 then deliver client msg st else st)"

definition broadcast :: "string \<Rightarrow> ServerMessage \<Rightarrow> ws option \<Rightarrow> Server \<Rightarrow> Server" where
  "broadcast rid msg excludeWs st =
     (case rooms st rid of
        None \<Rightarrow> st
      | Some ms \<Rightarrow>
          fold (\<lambda>client s.
                  if Some client \<noteq> excludeWs \<and> readyState s client = 1
                  then deliver client msg s else s)
               ms st)"

text \<open>
  \<open>handleJoin\<close>. A rejected database call ends the handler with what has been done
  so far; the error is the first component of the result.
\<close>

definition handleJoin ::
  "ws \<Rightarrow> string \<Rightarrow> string \<Rightarrow> UserData option \<Rightarrow> Server \<Rightarrow> error option \<times> Server" where
  "handleJoin client rid uid userData st =
     (let st1 = st\<lparr>clients := (clients st)
                     (client \<mapsto> \<lparr>ciUserId = uid, ciRoomId = rid, ciUser = userData\<rparr>),
                   rooms := (rooms st)
                     (rid \<mapsto> (if client \<in> set (members st rid) then members st rid
                               else members st rid @ [client]))\<rparr>
      in case RoomService_addUser (database st1) rid \<lparr>ruUserId = uid, ruData = userData\<rparr> of
           Inl err \<Rightarrow> (Some err, st1)
         | Inr db1 \<Rightarrow>
             (case RoomService_getRoom db1 rid of
                Inl err \<Rightarrow> (Some err, st1\<lparr>database := db1\<rparr>)
              | Inr (room, db2) \<Rightarrow>
                  (let users = List.map_filter
                                 (\<lambda>other. case clients st1 other of
                                             Some info \<Rightarrow> ciUser info
                                           | None \<Rightarrow> None)
                                 (filter (\<lambda>other. other \<noteq> client) (members st1 rid));
                       st2 = send client (InitSync users (roomShapes room) (version room))
                                  (st1\<lparr>database := db2\<rparr>);
                       st3 = broadcast rid (JoinMsg uid userData) (Some client) st2
                   in (None, st3))))"

text \<open>
  The \<open>try\<close> block of \<open>handleCommand\<close>: the mutation of the room record, then the
  operation record. The result is the database the block leaves behind and the
  error it was left with, if any.
\<close>

definition applyMutation :: "Database \<Rightarrow> string \<Rightarrow> CommandData \<Rightarrow> error + Database" where
  "applyMutation db rid cmd =
     (if cmdType cmd = ''add-shape'' then
        (case cmdShape cmd of
           Some json \<Rightarrow>
             RoomService_addShape db rid
               \<lparr>wrapId = jsonId json, wrapType = jsonType json, wrapData = ShapeData json\<rparr>
         | None \<Rightarrow> Inr db)
      else if cmdType cmd = ''delete-shape'' \<or> cmdType cmd = ''remove-shape'' then
        RoomService_deleteShape db rid (cmdShapeId cmd)
      else if cmdType cmd \<in> set [''update-shape'', ''move-shape'', ''resize-shape'', ''rotate-shape'']
      then RoomService_updateShape db rid (cmdShapeId cmd) cmd
      else Inr db)"

definition persistCommand ::
  "Database \<Rightarrow> string \<Rightarrow> string \<Rightarrow> CommandData \<Rightarrow> Database \<times> error option" where
  "persistCommand db rid uid cmd =
     (case applyMutation db rid cmd of
        Inl err \<Rightarrow> (db, Some err)
      | Inr db1 \<Rightarrow>
          (case RoomService_saveOperation db1 rid uid (cmdType cmd) cmd of
             Inl err \<Rightarrow> (db1, Some err)
           | Inr db2 \<Rightarrow> (db2, None)))"

text \<open>
  \<open>handleCommand\<close>: \<open>data\<close> is \<open>None\<close> when \<open>operation?.command\<close> is missing. The
  broadcast excludes nobody.
\<close>

definition handleCommand :: "ws \<Rightarrow> string \<Rightarrow> string \<Rightarrow> CommandData option \<Rightarrow> Server \<Rightarrow> Server" where
  "handleCommand client rid uid data st =
     (case data of
        None \<Rightarrow> st
      | Some cmd \<Rightarrow>
          broadcast rid (CommandMsg uid cmd) None
            (st\<lparr>database := fst (persistCommand (database st) rid uid cmd)\<rparr>))"

text \<open>
  A server with two open connections in room \<open>r1\<close>, an empty room record and the
  database connection down; and the payload that adds the second example rectangle.
\<close>

definition exampleServer :: Server where
  "exampleServer =
     \<lparr>clients = [1 \<mapsto> \<lparr>ciUserId = ''alice'', ciRoomId = ''r1'',
                        ciUser = Some \<lparr>userName = ''Alice'', userColor = ''#ff0000''\<rparr>\<rparr>,
                 2 \<mapsto> \<lparr>ciUserId = ''bob'', ciRoomId = ''r1'',
                        ciUser = Some \<lparr>userName = ''Bob'', userColor = ''#00ff00''\<rparr>\<rparr>],
      rooms = [''r1'' \<mapsto> [1, 2]],
      database = \<lparr>roomsTable = [''r1'' \<mapsto> newRoom ''r1''], operationsLog = [], dbConnected = False\<rparr>,
      readyState = (\<lambda>client. 1),
      outbox = (\<lambda>client. [])\<rparr>"

definition exampleAdd :: CommandData where
  "exampleAdd = (mkCommandData ''add-shape'')\<lparr>cmdShape := Some (toJSON (exampleStore 2))\<rparr>"

text \<open>
  The example server with the database connection up again, the state after it has
  relayed and persisted the add, and the payload that removes the rectangle.
\<close>

definition reconnected :: "Server \<Rightarrow> Server" where
  "reconnected st = st\<lparr>database := (database st)\<lparr>dbConnected := True\<rparr>\<rparr>"

definition serverWithShape :: Server where
  "serverWithShape = handleCommand 1 ''r1'' ''alice'' (Some exampleAdd) (reconnected exampleServer)"

definition exampleRemove :: CommandData where
  "exampleRemove = (mkCommandData ''remove-shape'')\<lparr>cmdShapeId := Some ''s2''\<rparr>"

section \<open>Properties of the geometry kernel\<close>

text \<open>
  C8 (as stated): \<open>AABB.intersects\<close> is reflexive for every box, inverted boxes
  included. This fails: the inverted box with \<open>minX = 1\<close> and \<open>maxX = 0\<close> does not
  intersect itself, because \<open>minX \<le> maxX\<close> is one of the four conjuncts tested.
\<close>

theorem C8_inverted_box_not_reflexive:
  "\<not> intersects (mkAABB 1 0 0 0) (mkAABB 1 0 0 0)"
  by (simp add: intersects_def mkAABB_def)

text \<open>
  C8 (amended): \<open>AABB.intersects\<close> is symmetric for every pair of boxes, inverted
  and degenerate ones included; it is reflexive exactly on the boxes that are not
  inverted (\<open>minX \<le> maxX\<close> and \<open>minY \<le> maxY\<close>, which covers the degenerate
  zero-area boxes); and two non-inverted boxes that touch along a vertical or a
  horizontal edge are reported as intersecting.
\<close>

theorem C8_intersects_symmetric_reflexive_touching:
  "(intersects a b \<longleftrightarrow> intersects b a) \<and>
   (intersects a a \<longleftrightarrow> minX a \<le> maxX a \<and> minY a \<le> maxY a) \<and>
   (minX a \<le> maxX a \<and> minX b \<le> maxX b \<and> maxX a = minX b \<and>
      minY a \<le> maxY b \<and> minY b \<le> maxY a \<longrightarrow> intersects a b) \<and>
   (minY a \<le> maxY a \<and> minY b \<le> maxY b \<and> maxY a = minY b \<and>
      minX a \<le> maxX b \<and> minX b \<le> maxX a \<longrightarrow> intersects a b)"
  unfolding intersects_def by auto

theorem C8_intersects_witness:
  "intersects (mkAABB 0 0 1 1) (mkAABB 1 0 2 1) \<and>
   intersects (mkAABB 1 0 2 1) (mkAABB 0 0 1 1) \<and>
   intersects (mkAABB 3 3 3 3) (mkAABB 3 3 3 3) \<and>
   intersects (mkAABB 0 0 1 1) (mkAABB 0 1 1 2)"
proof -
  note laws = C8_intersects_symmetric_reflexive_touching
  have edge: "intersects (mkAABB 0 0 1 1) (mkAABB 1 0 2 1)"
    by (rule laws [THEN conjunct2, THEN conjunct2, THEN conjunct1, rule_format])
       (simp add: mkAABB_def)
  have sym: "intersects (mkAABB 1 0 2 1) (mkAABB 0 0 1 1)"
    using edge by (simp only: laws [THEN conjunct1, of "mkAABB 1 0 2 1" "mkAABB 0 0 1 1"])
  have degenerate: "intersects (mkAABB 3 3 3 3) (mkAABB 3 3 3 3)"
    by (rule laws [THEN conjunct2, THEN conjunct1, THEN iffD2]) (simp add: mkAABB_def)
  have below: "intersects (mkAABB 0 0 1 1) (mkAABB 0 1 1 2)"
    by (rule laws [THEN conjunct2, THEN conjunct2, THEN conjunct2, rule_format])
       (simp add: mkAABB_def)
  from edge sym degenerate below show ?thesis by simp
qed

section \<open>Properties of the command log\<close>

subsection \<open>What \<open>CommandManager.execute\<close> returns\<close>

lemma canMerge_is_move:
  "canMerge command lc \<Longrightarrow>
     \<exists>rs dx dy old rs' dx' dy' old'.
        command = MoveShapeCommand rs dx dy old \<and> lc = MoveShapeCommand rs' dx' dy' old'"
  by (cases command; cases lc) simp_all

lemma merge_after_canMerge:
  "canMerge command lc \<Longrightarrow> \<exists>lc'. merge lc command = Inr lc'"
  by (cases command; cases lc) simp_all

lemma execute_returns:
  "\<exists>this' w'. CommandManager_execute command (this, w) = Inr (this', w') \<and> redoStack this' = []"
proof (cases "undoStack this \<noteq> [] \<and> canMerge command (last (undoStack this))")
  case True
  then obtain lc' where "merge (last (undoStack this)) command = Inr lc'"
    using merge_after_canMerge by blast
  with True show ?thesis by (simp add: CommandManager_execute_def)
next
  case False
  then show ?thesis by (auto simp: CommandManager_execute_def pushUndo_def Let_def)
qed

lemma execute_push:
  "undoStack this = [] \<or> \<not> canMerge command (last (undoStack this)) \<Longrightarrow>
   CommandManager_execute command (this, w) =
     Inr ((pushUndo this command)\<lparr>redoStack := []\<rparr>, execute command w)"
  by (auto simp: CommandManager_execute_def Let_def)

lemma execute_merge:
  "undoStack this \<noteq> [] \<Longrightarrow> canMerge command (last (undoStack this)) \<Longrightarrow>
   merge (last (undoStack this)) command = Inr lc' \<Longrightarrow>
   CommandManager_execute command (this, w) =
     Inr (this\<lparr>undoStack := butlast (undoStack this) @ [lc'], redoStack := []\<rparr>,
          execute command w)"
  by (auto simp: CommandManager_execute_def Let_def)

text \<open>
  C10: \<open>CommandManager.execute\<close> returns normally on every call and leaves the redo
  stack empty, whether the command was pushed or merged into the top entry, so
  \<open>canRedo()\<close> is false right after it.
\<close>

theorem C10_execute_clears_redo:
  "\<exists>this' w'. CommandManager_execute command (this, w) = Inr (this', w') \<and>
      redoStack this' = [] \<and> \<not> canRedo this'"
  using execute_returns [of command this w] by (auto simp: canRedo_def)

text \<open>
  C10, on a call that merges: the undo stack keeps its single entry and the redo
  stack, which held a command, is empty afterwards.
\<close>

theorem C10_execute_clears_redo_witness:
  "\<exists>this' w'.
     CommandManager_execute (mkMoveShapeCommand exampleStore [1] 10 5)
       (\<lparr>undoStack = [mkMoveShapeCommand exampleStore [1] 10 5],
         redoStack = [AddShapeCommand 2], maxHistory = 100\<rparr>, exampleWorld) = Inr (this', w') \<and>
     length (undoStack this') = 1 \<and> redoStack this' = [] \<and> \<not> canRedo this'"
proof -
  obtain this' w' where
    r: "CommandManager_execute (mkMoveShapeCommand exampleStore [1] 10 5)
       (\<lparr>undoStack = [mkMoveShapeCommand exampleStore [1] 10 5],
         redoStack = [AddShapeCommand 2], maxHistory = 100\<rparr>, exampleWorld) = Inr (this', w')"
       "redoStack this' = []" "\<not> canRedo this'"
    using C10_execute_clears_redo by blast
  have "length (undoStack this') = 1"
    using r(1) by (auto simp: CommandManager_execute_def Let_def mkMoveShapeCommand_def)
  then show ?thesis using r by blast
qed

subsection \<open>Bounded history\<close>

lemma execute_bounded:
  assumes "historyBounded this" "CommandManager_execute command (this, w) = Inr (this', w')"
  shows "historyBounded this'"
proof (cases "undoStack this \<noteq> [] \<and> canMerge command (last (undoStack this))")
  case True
  then obtain lc' where "merge (last (undoStack this)) command = Inr lc'"
    using merge_after_canMerge by blast
  with True assms show ?thesis
    by (auto simp: execute_merge historyBounded_def)
next
  case False
  with assms show ?thesis
    by (auto simp: execute_push historyBounded_def pushUndo_def Let_def)
qed

lemma undo_bounded:
  "historyBounded this \<Longrightarrow> historyBounded (fst (CommandManager_undo (this, w)))"
  by (cases "undoStack this" rule: rev_cases)
     (auto simp: CommandManager_undo_def historyBounded_def Let_def)

lemma redo_bounded:
  "historyBounded this \<Longrightarrow> historyBounded (fst (CommandManager_redo (this, w)))"
  by (cases "redoStack this" rule: rev_cases)
     (auto simp: CommandManager_redo_def historyBounded_def Let_def)

text \<open>
  C6: the capacity defaults to 100; the bound on the history holds for a new
  manager and is kept by \<open>execute\<close>, \<open>undo\<close> and \<open>redo\<close>, so the undo stack never
  exceeds the capacity; and executing a command that does not merge while the undo
  stack holds \<open>maxHistory\<close> entries pushes the command and drops exactly the
  oldest entry, the others keeping their order.
\<close>

theorem C6_bounded_history_evicts_oldest:
  "maxHistory (mkCommandManager None) = 100 \<and>
   historyBounded (mkCommandManager None) \<and>
   (historyBounded this \<longrightarrow>
      historyBounded (fst (CommandManager_undo (this, w))) \<and>
      historyBounded (fst (CommandManager_redo (this, w))) \<and>
      (\<exists>this' w'. CommandManager_execute command (this, w) = Inr (this', w') \<and>
                  historyBounded this' \<and>
                  int (length (undoStack this')) \<le> maxHistory this')) \<and>
   ((undoStack this = [] \<or> \<not> canMerge command (last (undoStack this))) \<and>
    int (length (undoStack this)) = maxHistory this \<longrightarrow>
      (\<exists>this' w'. CommandManager_execute command (this, w) = Inr (this', w') \<and>
         undoStack this' = tl (undoStack this @ [command]) \<and>
         (undoStack this \<noteq> [] \<longrightarrow> undoStack this' = tl (undoStack this) @ [command]) \<and>
         maxHistory this' = maxHistory this))"
proof (intro conjI impI)
  show "maxHistory (mkCommandManager None) = 100"
    by (simp add: mkCommandManager_def)
  show "historyBounded (mkCommandManager None)"
    by (simp add: mkCommandManager_def historyBounded_def)
next
  assume b: "historyBounded this"
  show "historyBounded (fst (CommandManager_undo (this, w)))" using b by (rule undo_bounded)
  show "historyBounded (fst (CommandManager_redo (this, w)))" using b by (rule redo_bounded)
  obtain this' w' where e: "CommandManager_execute command (this, w) = Inr (this', w')"
    using execute_returns by blast
  have "historyBounded this'" using b e by (rule execute_bounded)
  then show "\<exists>this' w'. CommandManager_execute command (this, w) = Inr (this', w') \<and>
                  historyBounded this' \<and> int (length (undoStack this')) \<le> maxHistory this'"
    using e by (auto simp: historyBounded_def)
next
  assume a: "(undoStack this = [] \<or> \<not> canMerge command (last (undoStack this))) \<and>
    int (length (undoStack this)) = maxHistory this"
  then show "\<exists>this' w'. CommandManager_execute command (this, w) = Inr (this', w') \<and>
         undoStack this' = tl (undoStack this @ [command]) \<and>
         (undoStack this \<noteq> [] \<longrightarrow> undoStack this' = tl (undoStack this) @ [command]) \<and>
         maxHistory this' = maxHistory this"
    by (simp add: execute_push pushUndo_def Let_def)
qed

text \<open>C6, on a full stack of capacity 2.\<close>

theorem C6_bounded_history_witness:
  "historyBounded \<lparr>undoStack = [AddShapeCommand 1, AddShapeCommand 2], redoStack = [], maxHistory = 2\<rparr> \<and>
   (\<exists>this' w'.
      CommandManager_execute (RemoveShapeCommand [1])
        (\<lparr>undoStack = [AddShapeCommand 1, AddShapeCommand 2], redoStack = [], maxHistory = 2\<rparr>,
         exampleWorld) = Inr (this', w') \<and>
      undoStack this' = [AddShapeCommand 2, RemoveShapeCommand [1]] \<and>
      historyBounded this')"
proof -
  let ?cm = "\<lparr>undoStack = [AddShapeCommand 1, AddShapeCommand 2], redoStack = [], maxHistory = 2\<rparr>"
  note c6 = C6_bounded_history_evicts_oldest [of ?cm exampleWorld "RemoveShapeCommand [1]"]
  have hb: "historyBounded ?cm" by (simp add: historyBounded_def)
  have full: "(undoStack ?cm = [] \<or> \<not> canMerge (RemoveShapeCommand [1]) (last (undoStack ?cm))) \<and>
    int (length (undoStack ?cm)) = maxHistory ?cm" by simp
  obtain this' w' where
    r: "CommandManager_execute (RemoveShapeCommand [1]) (?cm, exampleWorld) = Inr (this', w')"
       "undoStack this' = tl (undoStack ?cm @ [RemoveShapeCommand [1]])"
    using c6 full by blast
  obtain this'' w'' where
    r2: "CommandManager_execute (RemoveShapeCommand [1]) (?cm, exampleWorld) = Inr (this'', w'')"
        "historyBounded this''"
    using c6 hb by blast
  have "this'' = this'" using r(1) r2(1) by simp
  then show ?thesis using hb r r2 by auto
qed

subsection \<open>Merged moves\<close>

lemma positionsOnly_refl: "positionsOnly rs h h"
proof -
  have "h r = (h r)\<lparr>shapeX := shapeX (h r), shapeY := shapeY (h r)\<rparr>" for r by simp
  then show ?thesis unfolding positionsOnly_def by blast
qed

lemma positionsOnly_moveBy:
  assumes "positionsOnly rs h h'" "a \<in> set rs"
  shows "positionsOnly rs h (moveBy dx dy a h')"
proof -
  obtain px py where a: "h' a = (h a)\<lparr>shapeX := px, shapeY := py\<rparr>"
    using assms(1) unfolding positionsOnly_def by blast
  have moved: "moveBy dx dy a h' a = (h a)\<lparr>shapeX := px + dx, shapeY := py + dy\<rparr>"
    by (simp add: moveBy_def a)
  have other: "r \<noteq> a \<Longrightarrow> moveBy dx dy a h' r = h' r" for r
    by (simp add: moveBy_def)
  show ?thesis
    unfolding positionsOnly_def
  proof (intro allI conjI impI)
    fix r assume "r \<notin> set rs"
    then show "moveBy dx dy a h' r = h r"
      using assms other [of r] by (auto simp: positionsOnly_def)
  next
    fix r
    show "\<exists>px py. moveBy dx dy a h' r = (h r)\<lparr>shapeX := px, shapeY := py\<rparr>"
    proof (cases "r = a")
      case True
      then show ?thesis using moved by blast
    next
      case False
      then show ?thesis using other [of r] assms(1) by (simp add: positionsOnly_def)
    qed
  qed
qed

lemma positionsOnly_moveBy_fold:
  "positionsOnly rs h h' \<Longrightarrow> set rs' \<subseteq> set rs \<Longrightarrow>
   positionsOnly rs h (fold (moveBy dx dy) rs' h')"
  by (induction rs' arbitrary: h') (simp_all add: positionsOnly_moveBy)

lemma oldPositions_lookup:
  "r \<in> set rs \<or> m0 r = Some (mkVector (shapeX (h r)) (shapeY (h r))) \<Longrightarrow>
   fold (\<lambda>shape m. m(shape \<mapsto> mkVector (shapeX (h shape)) (shapeY (h shape)))) rs m0 r
     = Some (mkVector (shapeX (h r)) (shapeY (h r)))"
proof (induction rs arbitrary: m0)
  case Nil
  then show ?case by simp
next
  case (Cons a rs)
  have "r \<in> set rs \<or>
        (m0(a \<mapsto> mkVector (shapeX (h a)) (shapeY (h a)))) r
          = Some (mkVector (shapeX (h r)) (shapeY (h r)))"
    using Cons.prems by auto
  then have "fold (\<lambda>shape m. m(shape \<mapsto> mkVector (shapeX (h shape)) (shapeY (h shape)))) rs
          (m0(a \<mapsto> mkVector (shapeX (h a)) (shapeY (h a)))) r
        = Some (mkVector (shapeX (h r)) (shapeY (h r)))"
    by (rule Cons.IH)
  then show ?case by (simp only: fold.simps o_apply)
qed

lemma restore_fold:
  "(\<And>r. r \<in> set rs' \<Longrightarrow> old r = Some (mkVector (shapeX (h r)) (shapeY (h r)))) \<Longrightarrow>
   (\<And>r. \<exists>px py. h'' r = (h r)\<lparr>shapeX := px, shapeY := py\<rparr>) \<Longrightarrow>
   fold (restorePosition old) rs' h'' = (\<lambda>r. if r \<in> set rs' then h r else h'' r)"
proof (induction rs' arbitrary: h'')
  case Nil
  then show ?case by simp
next
  case (Cons a rs')
  obtain px py where a: "h'' a = (h a)\<lparr>shapeX := px, shapeY := py\<rparr>"
    using Cons.prems(2) by blast
  have step: "restorePosition old a h'' = h''(a := h a)"
    using Cons.prems(1) [of a] a by (simp add: restorePosition_def mkVector_def)
  have "\<And>r. \<exists>px py. (h''(a := h a)) r = (h r)\<lparr>shapeX := px, shapeY := py\<rparr>"
  proof -
    fix r
    show "\<exists>px py. (h''(a := h a)) r = (h r)\<lparr>shapeX := px, shapeY := py\<rparr>"
    proof (cases "r = a")
      case True
      have "h a = (h a)\<lparr>shapeX := shapeX (h a), shapeY := shapeY (h a)\<rparr>" by simp
      then show ?thesis using True by (metis fun_upd_same)
    next
      case False
      then show ?thesis using Cons.prems(2) [of r] by simp
    qed
  qed
  then have "fold (restorePosition old) rs' (h''(a := h a))
      = (\<lambda>r. if r \<in> set rs' then h r else (h''(a := h a)) r)"
    using Cons.IH Cons.prems(1) by simp
  then show ?case by (auto simp: step)
qed

lemma undo_move_restores:
  assumes "positionsOnly rs h h'"
  shows "fold (restorePosition
           (fold (\<lambda>shape m. m(shape \<mapsto> mkVector (shapeX (h shape)) (shapeY (h shape)))) rs Map.empty))
           rs h' = h"
proof -
  have "fold (restorePosition
           (fold (\<lambda>shape m. m(shape \<mapsto> mkVector (shapeX (h shape)) (shapeY (h shape)))) rs Map.empty))
           rs h' = (\<lambda>r. if r \<in> set rs then h r else h' r)"
  proof (rule restore_fold)
    fix r assume "r \<in> set rs"
    then show "fold (\<lambda>shape m. m(shape \<mapsto> mkVector (shapeX (h shape)) (shapeY (h shape)))) rs Map.empty r
      = Some (mkVector (shapeX (h r)) (shapeY (h r)))"
      by (intro oldPositions_lookup) simp
  next
    fix r show "\<exists>px py. h' r = (h r)\<lparr>shapeX := px, shapeY := py\<rparr>"
      using assms by (simp add: positionsOnly_def)
  qed
  also have "\<dots> = h" using assms by (auto simp: positionsOnly_def)
  finally show ?thesis .
qed

lemma executeMoves_merged:
  assumes "undoStack this = kept @ [MoveShapeCommand rs a b old]"
      and "positionsOnly rs h (shapeStore w)"
  shows "\<exists>this' w'. executeMoves rs ds (this, w) = Inr (this', w') \<and>
           undoStack this' =
             kept @ [MoveShapeCommand rs (a + sum_list (map fst ds)) (b + sum_list (map snd ds)) old] \<and>
           redoStack this' = redoStack (if ds = [] then this else this\<lparr>redoStack := []\<rparr>) \<and>
           scene w' = scene w \<and> positionsOnly rs h (shapeStore w')"
  using assms
proof (induction ds arbitrary: this w a b)
  case Nil
  then show ?case by simp
next
  case (Cons d ds)
  let ?c = "mkMoveShapeCommand (shapeStore w) rs (fst d) (snd d)"
  let ?this1 = "this\<lparr>undoStack := kept @ [MoveShapeCommand rs (a + fst d) (b + snd d) old],
                      redoStack := []\<rparr>"
  let ?w1 = "execute ?c w"
  have cm: "canMerge ?c (last (undoStack this))"
    using Cons.prems(1) by (simp add: mkMoveShapeCommand_def list_all_iff)
  have mg: "merge (last (undoStack this)) ?c = Inr (MoveShapeCommand rs (a + fst d) (b + snd d) old)"
    using Cons.prems(1) by (simp add: mkMoveShapeCommand_def)
  have ex: "CommandManager_execute ?c (this, w) = Inr (?this1, ?w1)"
    using execute_merge [OF _ cm mg, of w] Cons.prems(1) by simp
  have p1: "positionsOnly rs h (shapeStore ?w1)"
    using Cons.prems(2) by (simp add: mkMoveShapeCommand_def positionsOnly_moveBy_fold)
  have s1: "scene ?w1 = scene w" by (simp add: mkMoveShapeCommand_def)
  obtain this' w' where r: "executeMoves rs ds (?this1, ?w1) = Inr (this', w')"
      "undoStack this' = kept @ [MoveShapeCommand rs (a + fst d + sum_list (map fst ds))
                                   (b + snd d + sum_list (map snd ds)) old]"
      "redoStack this' = redoStack (if ds = [] then ?this1 else ?this1\<lparr>redoStack := []\<rparr>)"
      "scene w' = scene ?w1" "positionsOnly rs h (shapeStore w')"
    using Cons.IH [of ?this1 "a + fst d" "b + snd d" ?w1] p1 by auto
  show ?case
    using r s1 by (auto simp: ex add.assoc)
qed

text \<open>
  Move commands that are constructed before their move is applied: one or more
  further moves after a first move, on a manager of capacity at least 1 whose top
  entry does not merge with the first move, leave exactly one new entry on the undo
  stack; its delta is the sum of the deltas and its recorded positions are those
  before the first move; one \<open>undo()\<close> gives back the state before the first move.
\<close>

lemma merged_moves_single_entry:
  assumes cap: "1 \<le> maxHistory this"
      and top: "undoStack this = [] \<or>
                \<not> canMerge (mkMoveShapeCommand (shapeStore w) rs dx dy) (last (undoStack this))"
  shows "\<exists>this' w'.
           executeMoves rs ((dx, dy) # ds) (this, w) = Inr (this', w') \<and>
           undoStack this' =
             (if int (length (undoStack this)) < maxHistory this
              then undoStack this else tl (undoStack this))
             @ [mkMoveShapeCommand (shapeStore w) rs
                  (dx + sum_list (map fst ds)) (dy + sum_list (map snd ds))] \<and>
           snd (CommandManager_undo (this', w')) = w"
proof -
  let ?c = "mkMoveShapeCommand (shapeStore w) rs dx dy"
  let ?old = "fold (\<lambda>shape m. m(shape \<mapsto> mkVector (shapeX (shapeStore w shape)) (shapeY (shapeStore w shape)))) rs Map.empty"
  let ?kept = "if int (length (undoStack this)) < maxHistory this
               then undoStack this else tl (undoStack this)"
  let ?this1 = "(pushUndo this ?c)\<lparr>redoStack := []\<rparr>"
  let ?w1 = "execute ?c w"
  have ex: "CommandManager_execute ?c (this, w) = Inr (?this1, ?w1)"
    using top by (rule execute_push)
  have us: "undoStack ?this1 = ?kept @ [MoveShapeCommand rs dx dy ?old]"
    using cap by (cases "undoStack this") (auto simp: pushUndo_def Let_def mkMoveShapeCommand_def)
  have p1: "positionsOnly rs (shapeStore w) (shapeStore ?w1)"
    by (simp add: mkMoveShapeCommand_def positionsOnly_moveBy_fold positionsOnly_refl)
  obtain this' w' where r: "executeMoves rs ds (?this1, ?w1) = Inr (this', w')"
      "undoStack this' = ?kept @ [MoveShapeCommand rs (dx + sum_list (map fst ds))
                                   (dy + sum_list (map snd ds)) ?old]"
      "scene w' = scene ?w1" "positionsOnly rs (shapeStore w) (shapeStore w')"
    using executeMoves_merged [OF us p1, of ds] by blast
  have sc: "scene w' = scene w" using r(3) by (simp add: mkMoveShapeCommand_def)
  have "shapeStore (snd (CommandManager_undo (this', w'))) = shapeStore w"
    using r(2,4) by (simp add: CommandManager_undo_def Let_def undo_move_restores)
  moreover have "scene (snd (CommandManager_undo (this', w'))) = scene w"
    using r(2) sc by (simp add: CommandManager_undo_def Let_def)
  ultimately have "snd (CommandManager_undo (this', w')) = w"
    by (simp add: World.equality)
  moreover have "executeMoves rs ((dx, dy) # ds) (this, w) = Inr (this', w')"
    using r(1) by (simp add: ex)
  moreover have "undoStack this' = ?kept @ [mkMoveShapeCommand (shapeStore w) rs
                  (dx + sum_list (map fst ds)) (dy + sum_list (map snd ds))]"
    using r(2) by (simp add: mkMoveShapeCommand_def)
  ultimately show ?thesis by blast
qed

text \<open>The same, on three moves by \<open>(10, 5)\<close> of a rectangle at \<open>(100, 100)\<close>.\<close>

lemma merged_moves_three_moves:
  "1 \<le> maxHistory (mkCommandManager None) \<and>
   (\<exists>this' w'.
      executeMoves [1] [(10, 5), (10, 5), (10, 5)] (mkCommandManager None, exampleWorld)
        = Inr (this', w') \<and>
      undoStack this' = [mkMoveShapeCommand exampleStore [1] 30 15] \<and>
      shapeX (shapeStore w' 1) = 130 \<and> shapeY (shapeStore w' 1) = 115 \<and>
      snd (CommandManager_undo (this', w')) = exampleWorld \<and>
      shapeX (shapeStore exampleWorld 1) = 100 \<and> shapeY (shapeStore exampleWorld 1) = 100)"
proof -
  have cap: "1 \<le> maxHistory (mkCommandManager None)"
    by (simp add: mkCommandManager_def)
  have top: "undoStack (mkCommandManager None) = [] \<or>
      \<not> canMerge (mkMoveShapeCommand (shapeStore exampleWorld) [1] 10 5)
           (last (undoStack (mkCommandManager None)))"
    by (simp add: mkCommandManager_def)
  obtain this' w' where
    r: "executeMoves [1] ((10, 5) # [(10, 5), (10, 5)]) (mkCommandManager None, exampleWorld)
          = Inr (this', w')"
       "undoStack this' =
          (if int (length (undoStack (mkCommandManager None))) < maxHistory (mkCommandManager None)
           then undoStack (mkCommandManager None) else tl (undoStack (mkCommandManager None)))
          @ [mkMoveShapeCommand (shapeStore exampleWorld) [1]
               (10 + sum_list (map fst [(10::real, 5::real), (10, 5)]))
               (5 + sum_list (map snd [(10::real, 5::real), (10, 5)]))]"
       "snd (CommandManager_undo (this', w')) = exampleWorld"
    using merged_moves_single_entry [OF cap top, of "[(10, 5), (10, 5)]"] by blast
  have st: "undoStack this' = [mkMoveShapeCommand exampleStore [1] 30 15]"
    using r(2) by (simp add: mkCommandManager_def exampleWorld_def)
  have w': "shapeStore w' = moveBy 10 5 1 (moveBy 10 5 1 (moveBy 10 5 1 exampleStore))"
    using r(1)
    by (auto simp: CommandManager_execute_def mkCommandManager_def pushUndo_def Let_def
        mkMoveShapeCommand_def exampleWorld_def)
  have pos: "shapeX (shapeStore w' 1) = 130 \<and> shapeY (shapeStore w' 1) = 115"
    by (simp add: w' moveBy_def exampleStore_def mkRect_def)
  have pos0: "shapeX (shapeStore exampleWorld 1) = 100 \<and> shapeY (shapeStore exampleWorld 1) = 100"
    by (simp add: exampleWorld_def exampleStore_def mkRect_def)
  show ?thesis using cap r(1,3) st pos pos0 by auto
qed

subsection \<open>Execute, then undo\<close>

lemma remove1_sort_key_snoc:
  "sorted (map f xs) \<Longrightarrow> r \<notin> set xs \<Longrightarrow> remove1 r (sort_key f (xs @ [r])) = xs"
proof (induction xs)
  case Nil
  then show ?case by simp
next
  case (Cons x xs)
  let ?L = "sort_key f (xs @ [r])"
  have IH: "remove1 r ?L = xs" using Cons by simp
  have xr: "x \<noteq> r" using Cons.prems by auto
  have le: "\<forall>y\<in>set xs. f x \<le> f y" using Cons.prems(1) by auto
  have setL: "set ?L = insert r (set xs)" by simp
  show ?case
  proof (cases "f x \<le> f r")
    case True
    then have "\<forall>y\<in>set ?L. f x \<le> f y" using le setL by auto
    then have "insort_key f x ?L = x # ?L" by (rule insort_is_Cons)
    then show ?thesis using xr IH by simp
  next
    case False
    have sL: "sorted (map f ?L)" by simp
    obtain y L' where L: "?L = y # L'" using setL by (cases ?L) auto
    have "\<forall>z\<in>set ?L. f y \<le> f z" using sL unfolding L by auto
    then have "f y \<le> f r" using setL by blast
    then have "y = r" using False le setL L
      by (metis dual_order.trans insert_iff list.set_intros(1))
    then have L'': "?L = r # xs" using IH L by simp
    have "insort_key f x (r # xs) = r # x # xs"
      using False le by (simp add: insort_is_Cons)
    then show ?thesis using xr L'' by simp
  qed
qed

lemma undo_add_restores_list:
  assumes "r \<notin> set (shapes sc)"
      and "autoSort sc \<longrightarrow> sorted (map (\<lambda>s. zIndex (h s)) (shapes sc))"
  shows "shapes (snd (remove (add h sc r) r)) = shapes sc"
  using assms
  by (auto simp: add_def remove_def Scene_sort_def Let_def remove1_sort_key_snoc remove1_append)

lemma undo_after_push:
  assumes "1 \<le> maxHistory this"
  shows "snd (CommandManager_undo ((pushUndo this c)\<lparr>redoStack := []\<rparr>, w1)) = undo c w1"
proof -
  have "undoStack (pushUndo this c) =
          (if int (length (undoStack this)) < maxHistory this
           then undoStack this else tl (undoStack this)) @ [c]"
    using assms by (cases "undoStack this") (auto simp: pushUndo_def Let_def)
  then show ?thesis by (simp add: CommandManager_undo_def Let_def)
qed

text \<open>
  The add command, the sibling of the remove command: on a scene in z-order it puts
  the list back as it was, order included.
\<close>

lemma add_execute_undo_restores:
  assumes fresh: "shape \<notin> set (shapes (scene w))"
      and ordered: "zOrdered w"
      and cap: "1 \<le> maxHistory this"
  shows "\<exists>this1 w1.
           CommandManager_execute (AddShapeCommand shape) (this, w) = Inr (this1, w1) \<and>
           shapeStore (snd (CommandManager_undo (this1, w1))) = shapeStore w \<and>
           shapes (scene (snd (CommandManager_undo (this1, w1)))) = shapes (scene w)"
proof -
  let ?c = "AddShapeCommand shape"
  let ?this1 = "(pushUndo this ?c)\<lparr>redoStack := []\<rparr>"
  let ?w1 = "execute ?c w"
  have ex: "CommandManager_execute ?c (this, w) = Inr (?this1, ?w1)"
    by (rule execute_push) simp
  have un: "snd (CommandManager_undo (?this1, ?w1)) = undo ?c ?w1"
    using cap by (rule undo_after_push)
  have "shapes (snd (remove (add (shapeStore w) (scene w) shape) shape)) = shapes (scene w)"
    using fresh ordered unfolding zOrdered_def by (intro undo_add_restores_list) auto
  then show ?thesis using ex un by simp
qed

lemma threeShapeWorld_shapes: "shapes (scene threeShapeWorld) = [1, 2, 3]"
  by (simp add: threeShapeWorld_def add_def mkScene_def Scene_sort_def exampleStore_def mkRect_def)

lemma threeShapeWorld_scene:
  "scene threeShapeWorld =
     \<lparr>shapes = [1, 2, 3], autoSort = True, quadTree = None, useQuadTree = False,
      quadTreeDirty = True\<rparr>"
  by (simp add: threeShapeWorld_def add_def mkScene_def Scene_sort_def exampleStore_def mkRect_def)

text \<open>
  C4, evaluated on the scene \<open>[s1, s2, s3]\<close> of three rectangles with equal z-index
  and a fresh command manager: executing the command that removes \<open>s1\<close> leaves
  \<open>[s2, s3]\<close>, and \<open>undo()\<close> then gives \<open>[s2, s3, s1]\<close>, not the list before the
  command. \<open>RemoveShapeCommand.undo\<close> calls \<open>Scene.addMany\<close>, which appends. Only a
  shape that was last, like \<open>s3\<close>, comes back to its place.
\<close>

theorem C4_remove_undo_changes_order:
  "shapes (scene threeShapeWorld) = [1, 2, 3] \<and>
   \<not> isl (CommandManager_execute (RemoveShapeCommand [1]) (mkCommandManager None, threeShapeWorld)) \<and>
   shapes (scene (snd (stateAfter
     (CommandManager_execute (RemoveShapeCommand [1]) (mkCommandManager None, threeShapeWorld)))))
     = [2, 3] \<and>
   shapes (scene (snd (CommandManager_undo (stateAfter
     (CommandManager_execute (RemoveShapeCommand [1]) (mkCommandManager None, threeShapeWorld))))))
     = [2, 3, 1] \<and>
   shapes (scene (snd (CommandManager_undo (stateAfter
     (CommandManager_execute (RemoveShapeCommand [3]) (mkCommandManager None, threeShapeWorld))))))
     = [1, 2, 3]"
proof -
  have ex: "CommandManager_execute c (mkCommandManager None, threeShapeWorld)
      = Inr (\<lparr>undoStack = [c], redoStack = [], maxHistory = 100\<rparr>, execute c threeShapeWorld)" for c
    by (simp add: CommandManager_execute_def mkCommandManager_def pushUndo_def Let_def)
  have un: "snd (CommandManager_undo (\<lparr>undoStack = [c], redoStack = [], maxHistory = 100\<rparr>, w))
      = undo c w" for c w
    by (simp add: CommandManager_undo_def Let_def)
  have st: "shapeStore threeShapeWorld = exampleStore" by (simp add: threeShapeWorld_def)
  have 1: "shapes (scene threeShapeWorld) = [1, 2, 3]" by (rule threeShapeWorld_shapes)
  have 2: "\<not> isl (CommandManager_execute (RemoveShapeCommand [1]) (mkCommandManager None, threeShapeWorld))"
    by (simp add: ex)
  have 3: "shapes (scene (snd (stateAfter
     (CommandManager_execute (RemoveShapeCommand [1]) (mkCommandManager None, threeShapeWorld)))))
     = [2, 3]"
    by (simp add: ex stateAfter_def removeMany_def threeShapeWorld_scene)
  have 4: "shapes (scene (snd (CommandManager_undo (stateAfter
     (CommandManager_execute (RemoveShapeCommand [1]) (mkCommandManager None, threeShapeWorld))))))
     = [2, 3, 1]"
    by (simp add: ex un st stateAfter_def removeMany_def addMany_def Scene_sort_def
        threeShapeWorld_scene exampleStore_def mkRect_def)
  have 5: "shapes (scene (snd (CommandManager_undo (stateAfter
     (CommandManager_execute (RemoveShapeCommand [3]) (mkCommandManager None, threeShapeWorld))))))
     = [1, 2, 3]"
    by (simp add: ex un st stateAfter_def removeMany_def addMany_def Scene_sort_def
        threeShapeWorld_scene exampleStore_def mkRect_def)
  from 1 2 3 4 5 show ?thesis by blast
qed

section \<open>Properties of the spatial index\<close>

text \<open>
  A node that has children keeps them when a shape is inserted: the test on
  \<open>children node\<close> in the re-insertion loop of \<open>QuadTreeNode_subdivide\<close> never
  skips a shape.
\<close>

lemma QuadTreeNode_insert_keeps_children:
  "children this \<noteq> None \<Longrightarrow>
   children (snd (QuadTreeNode_insert cap maxD h depth this shape)) \<noteq> None"
  by (subst QuadTreeNode_insert.simps)
     (auto simp: pushShape_def Let_def split: prod.splits option.splits)

lemmas matrix_defs =
  hitTest_def worldToLocal_def getInverseWorldMatrix_def getWorldMatrix_def
  getLocalMatrix_def scale_def rotate_def translate_def multiply_def Matrix_identity_def
  Matrix_translate_def Matrix_rotate_def Matrix_scale_def mkMatrix_def invert_def
  transformPoint_def mkVector_def mkRect_def

lemmas index_defs =
  rebuildQuadTreeIfNeeded_def
  QuadTree_rebuild_def QuadTree_clear_def QuadTree_insertAll_def QuadTree_insert_def
  QuadTreeNode_clear_def mkQuadTree_def mkQuadTreeNode_def QuadTreeNode_insert.simps
  pushShape_def intersects_def getBoundingBox_def mkAABB_def
  QuadTree_queryPoint_def QuadTree_query_def containsPoint_def

lemmas scene_defs = Scene_hitTest_def findInBounds_def add_def addMany_def remove_def
  removeMany_def mkScene_def Scene_sort_def

text \<open>
  C1, evaluated on a 20 by 20 rectangle centred at \<open>(100, 100)\<close> and the query point
  \<open>(100, 100)\<close>: the exact hit test passes, but the candidates of the rebuilt index
  do not contain the rectangle, because the index is built from the local-space box
  \<open>(-10, -10, 10, 10)\<close>. The scene with the quadtree answers \<open>null\<close> where the scene
  without it answers the rectangle.
\<close>

theorem C1_index_omits_hit_shape:
  "hitTest (exampleStore 1) (mkVector 100 100) = Inr True \<and>
   1 \<notin> set (QuadTree_queryPoint exampleStore
               (QuadTree_rebuild exampleStore
                  (mkQuadTree (mkAABB (- 10000) (- 10000) 10000 10000)) [1])
               (mkVector 100 100)) \<and>
   fst (Scene_hitTest exampleStore (add exampleStore (mkScene None (Some True) None) 1)
          (mkVector 100 100)) = Inr None \<and>
   fst (Scene_hitTest exampleStore (add exampleStore (mkScene None (Some False) None) 1)
          (mkVector 100 100)) = Inr (Some 1)"
proof -
  have exact: "hitTest (exampleStore 1) (mkVector 100 100) = Inr True"
    by (simp add: exampleStore_def matrix_defs)
  have cand: "QuadTree_queryPoint exampleStore
               (QuadTree_rebuild exampleStore
                  (mkQuadTree (mkAABB (- 10000) (- 10000) 10000 10000)) [1])
               (mkVector 100 100) = []"
    by (simp add: exampleStore_def index_defs mkVector_def mkRect_def)
  have indexed: "fst (Scene_hitTest exampleStore (add exampleStore (mkScene None (Some True) None) 1)
          (mkVector 100 100)) = Inr None"
    by (simp add: exampleStore_def scene_defs index_defs mkVector_def mkRect_def)
  have linear: "fst (Scene_hitTest exampleStore (add exampleStore (mkScene None (Some False) None) 1)
          (mkVector 100 100)) = Inr (Some 1)"
    by (simp add: exampleStore_def scene_defs matrix_defs)
  from exact cand indexed linear show ?thesis by simp
qed

lemma queriedScene_eq:
  "queriedScene =
     \<lparr>shapes = [2], autoSort = True,
      quadTree = Some \<lparr>root = QuadTreeNode (mkAABB (- 10000) (- 10000) 10000 10000) [2] None,
                       capacity = 4, maxDepth = 8\<rparr>,
      useQuadTree = True, quadTreeDirty = False\<rparr>"
  by (simp add: queriedScene_def indexedScene_def exampleStore_def scene_defs index_defs
      mkVector_def mkRect_def)

text \<open>
  C3, evaluated on a scene whose index has just been rebuilt: \<open>add\<close> and \<open>remove\<close>
  set the dirty flag, \<open>addMany\<close> and \<open>removeMany\<close> leave it cleared. After
  \<open>removeMany\<close> the scene is empty and the point query still answers the removed
  shape; after \<open>addMany\<close> the range query does not see the added shape.
\<close>

theorem C3_addMany_removeMany_leave_index_clean:
  "quadTreeDirty queriedScene = False \<and>
   quadTreeDirty (add exampleStore queriedScene 3) = True \<and>
   quadTreeDirty (snd (remove queriedScene 2)) = True \<and>
   quadTreeDirty (addMany exampleStore queriedScene [3]) = False \<and>
   quadTreeDirty (removeMany queriedScene [2]) = False \<and>
   shapes (removeMany queriedScene [2]) = [] \<and>
   fst (Scene_hitTest exampleStore (removeMany queriedScene [2]) (mkVector 0 0)) = Inr (Some 2) \<and>
   fst (Scene_hitTest exampleStore (snd (remove queriedScene 2)) (mkVector 0 0)) = Inr None \<and>
   fst (findInBounds exampleStore (addMany exampleStore queriedScene [3]) (mkAABB (- 5) (- 5) 5 5)) = [2] \<and>
   fst (findInBounds exampleStore (add exampleStore queriedScene 3) (mkAABB (- 5) (- 5) 5 5)) = [2, 3]"
proof -
  have 1: "quadTreeDirty queriedScene = False"
    by (simp add: queriedScene_eq)
  have 2: "quadTreeDirty (add exampleStore queriedScene 3) = True"
    by (simp add: add_def Scene_sort_def Let_def)
  have 3: "quadTreeDirty (snd (remove queriedScene 2)) = True"
    by (simp add: queriedScene_eq remove_def)
  have 4: "quadTreeDirty (addMany exampleStore queriedScene [3]) = False"
    by (simp add: queriedScene_eq addMany_def Scene_sort_def)
  have 5: "quadTreeDirty (removeMany queriedScene [2]) = False"
    by (simp add: queriedScene_eq removeMany_def)
  have 6: "shapes (removeMany queriedScene [2]) = []"
    by (simp add: queriedScene_eq removeMany_def)
  have 7: "fst (Scene_hitTest exampleStore (removeMany queriedScene [2]) (mkVector 0 0)) = Inr (Some 2)"
    by (simp add: queriedScene_eq exampleStore_def scene_defs index_defs matrix_defs)
  have 8: "fst (Scene_hitTest exampleStore (snd (remove queriedScene 2)) (mkVector 0 0)) = Inr None"
    by (simp add: queriedScene_eq exampleStore_def scene_defs index_defs matrix_defs)
  have 9: "fst (findInBounds exampleStore (addMany exampleStore queriedScene [3]) (mkAABB (- 5) (- 5) 5 5)) = [2]"
    by (simp add: queriedScene_eq exampleStore_def scene_defs index_defs mkRect_def)
  have 10: "fst (findInBounds exampleStore (add exampleStore queriedScene 3) (mkAABB (- 5) (- 5) 5 5)) = [2, 3]"
    by (simp add: queriedScene_eq exampleStore_def scene_defs index_defs mkRect_def)
  from 1 2 3 4 5 6 7 8 9 10 show ?thesis by blast
qed

section \<open>Properties of the synchronization protocol\<close>

subsection \<open>Client to client\<close>

lemmas sync_defs =
  executeAndSync_def stateAfter_def CommandManager_execute_def mkCommandManager_def pushUndo_def
  commandDataOf_def mkCommandData_def handleRemoteCommand_def applyRemote_def exampleClient_def
  positionOf_def findById_def exampleWorld_def exampleStore_def mkRect_def
  add_def remove_def removeMany_def mkScene_def Scene_sort_def moveBy_def mkMoveShapeCommand_def
  removeById_def createShapeFromData_def createShapeFromJSON_def Rect_fromJSON_def
  shapeFromJSON_def toJSON_def orElse_def

text \<open>
  C2, evaluated on two clients that both hold the rectangle \<open>s1\<close> at \<open>(100, 100)\<close>.
  A moves it by \<open>(10, 5)\<close>: the payload is \<open>{type: 'move-shape'}\<close> with neither
  \<open>shapeId\<close> nor \<open>delta\<close>, and B leaves the rectangle where it was. A removes it:
  the payload is \<open>{type: 'RemoveShapeCommand'}\<close>, and B keeps the rectangle. Only an
  added shape arrives on B with A's id and position.
\<close>

theorem C2_move_and_remove_not_applied_remotely:
  "commandDataOf exampleStore (mkMoveShapeCommand exampleStore [1] 10 5)
     = mkCommandData ''move-shape'' \<and>
   positionOf (fst (executeAndSync ''u'' (mkMoveShapeCommand exampleStore [1] 10 5)
                      (mkCommandManager None, exampleWorld) exampleClient)) ''s1''
     = Some (110, 105) \<and>
   positionOf (world (snd (executeAndSync ''u'' (mkMoveShapeCommand exampleStore [1] 10 5)
                      (mkCommandManager None, exampleWorld) exampleClient))) ''s1''
     = Some (100, 100) \<and>
   commandDataOf exampleStore (RemoveShapeCommand [1]) = mkCommandData ''RemoveShapeCommand'' \<and>
   positionOf (fst (executeAndSync ''u'' (RemoveShapeCommand [1])
                      (mkCommandManager None, exampleWorld) exampleClient)) ''s1''
     = None \<and>
   positionOf (world (snd (executeAndSync ''u'' (RemoveShapeCommand [1])
                      (mkCommandManager None, exampleWorld) exampleClient))) ''s1''
     = Some (100, 100) \<and>
   positionOf (fst (executeAndSync ''u'' (AddShapeCommand 2)
                      (mkCommandManager None, exampleWorld) exampleClient)) ''s2''
     = Some (0, 0) \<and>
   positionOf (world (snd (executeAndSync ''u'' (AddShapeCommand 2)
                      (mkCommandManager None, exampleWorld) exampleClient))) ''s2''
     = Some (0, 0)"
proof -
  have 1: "commandDataOf exampleStore (mkMoveShapeCommand exampleStore [1] 10 5)
     = mkCommandData ''move-shape''"
    by (simp add: commandDataOf_def mkMoveShapeCommand_def mkCommandData_def)
  have 2: "positionOf (fst (executeAndSync ''u'' (mkMoveShapeCommand exampleStore [1] 10 5)
                      (mkCommandManager None, exampleWorld) exampleClient)) ''s1''
     = Some (110, 105)"
    by (simp add: sync_defs Let_def)
  have 3: "positionOf (world (snd (executeAndSync ''u'' (mkMoveShapeCommand exampleStore [1] 10 5)
                      (mkCommandManager None, exampleWorld) exampleClient))) ''s1''
     = Some (100, 100)"
    by (simp add: sync_defs Let_def)
  have 4: "commandDataOf exampleStore (RemoveShapeCommand [1]) = mkCommandData ''RemoveShapeCommand''"
    by (simp add: commandDataOf_def mkCommandData_def)
  have 5: "positionOf (fst (executeAndSync ''u'' (RemoveShapeCommand [1])
                      (mkCommandManager None, exampleWorld) exampleClient)) ''s1''
     = None"
    by (simp add: sync_defs Let_def)
  have 6: "positionOf (world (snd (executeAndSync ''u'' (RemoveShapeCommand [1])
                      (mkCommandManager None, exampleWorld) exampleClient))) ''s1''
     = Some (100, 100)"
    by (simp add: sync_defs Let_def)
  have 7: "positionOf (fst (executeAndSync ''u'' (AddShapeCommand 2)
                      (mkCommandManager None, exampleWorld) exampleClient)) ''s2''
     = Some (0, 0)"
    by (simp add: sync_defs Let_def)
  have 8: "positionOf (world (snd (executeAndSync ''u'' (AddShapeCommand 2)
                      (mkCommandManager None, exampleWorld) exampleClient))) ''s2''
     = Some (0, 0)"
    by (simp add: sync_defs Let_def)
  from 1 2 3 4 5 6 7 8 show ?thesis by blast
qed

subsection \<open>The relay\<close>

lemma fold_deliver_outbox:
  "distinct ms \<Longrightarrow>
   outbox (fold (\<lambda>client s. if Some client \<noteq> ex \<and> readyState s client = 1
                             then deliver client msg s else s) ms st) c
     = outbox st c @ (if c \<in> set ms \<and> Some c \<noteq> ex \<and> readyState st c = 1 then [msg] else []) \<and>
   readyState (fold (\<lambda>client s. if Some client \<noteq> ex \<and> readyState s client = 1
                             then deliver client msg s else s) ms st) = readyState st \<and>
   database (fold (\<lambda>client s. if Some client \<noteq> ex \<and> readyState s client = 1
                             then deliver client msg s else s) ms st) = database st"
proof (induction ms arbitrary: st)
  case Nil
  then show ?case by simp
next
  case (Cons a ms)
  let ?st1 = "if Some a \<noteq> ex \<and> readyState st a = 1 then deliver a msg st else st"
  have rs: "readyState ?st1 = readyState st" by (simp add: deliver_def)
  have db: "database ?st1 = database st" by (simp add: deliver_def)
  have ob: "outbox ?st1 c = outbox st c @ (if c = a \<and> Some c \<noteq> ex \<and> readyState st c = 1 then [msg] else [])"
    by (simp add: deliver_def)
  from Cons.prems have d: "distinct ms" and n: "a \<notin> set ms" by auto
  show ?case
    using Cons.IH [OF d, of ?st1] n
    by (simp only: fold_simps rs db ob) auto
qed

lemma broadcast_outbox:
  assumes "distinct (members st rid)"
  shows "outbox (broadcast rid msg ex st) c
     = outbox st c @ (if c \<in> set (members st rid) \<and> Some c \<noteq> ex \<and> readyState st c = 1
                      then [msg] else [])"
  using assms fold_deliver_outbox [of "members st rid" ex msg st c]
  by (auto simp: broadcast_def members_def split: option.splits)

lemma broadcast_database:
  assumes "distinct (members st rid)"
  shows "database (broadcast rid msg ex st) = database st"
  using assms fold_deliver_outbox [of "members st rid" ex msg st]
  by (auto simp: broadcast_def members_def split: option.splits)


lemma map_filter_cong_filter:
  "(\<And>x. x \<in> set xs \<Longrightarrow> P x \<Longrightarrow> f x = g x) \<Longrightarrow>
   List.map_filter f (filter P xs) = List.map_filter g (filter P xs)"
proof (induction xs)
  case Nil
  then show ?case by simp
next
  case (Cons a xs)
  have ih: "List.map_filter f (filter P xs) = List.map_filter g (filter P xs)"
    using Cons by simp
  show ?case
  proof (cases "P a")
    case True
    then have "f a = g a" using Cons.prems by simp
    then show ?thesis using True ih by (simp add: List.map_filter_simps split: option.split)
  next
    case False
    then show ?thesis using ih by simp
  qed
qed

lemmas server_defs =
  exampleServer_def reconnected_def handleCommand_def persistCommand_def applyMutation_def
  RoomService_addShape_def RoomService_deleteShape_def RoomService_updateShape_def
  RoomService_saveOperation_def RoomService_addUser_def RoomService_getRoom_def
  operationTypes_def roomOrNew_def newRoom_def persistedShapes_def members_def
  broadcast_def send_def deliver_def handleJoin_def exampleAdd_def mkCommandData_def

lemma serverWithShape_eq:
  "serverWithShape =
     exampleServer\<lparr>
       database :=
         \<lparr>roomsTable = [''r1'' \<mapsto> (newRoom ''r1'')
            \<lparr>roomShapes := [\<lparr>wrapId = Some ''s2'', wrapType = ''Rect'',
                              wrapData = ShapeData (toJSON (exampleStore 2))\<rparr>],
              version := 1\<rparr>],
          operationsLog = [\<lparr>opRoomId = ''r1'', opUserId = ''alice'', opType = ''add-shape'',
                            opData = exampleAdd\<rparr>],
          dbConnected = True\<rparr>,
       outbox := (\<lambda>client. [])(1 := [CommandMsg ''alice'' exampleAdd],
                                 2 := [CommandMsg ''alice'' exampleAdd])\<rparr>"
  by (simp add: serverWithShape_def server_defs toJSON_def exampleStore_def mkRect_def)

text \<open>
  C9: when the \<open>try\<close> block of \<open>handleCommand\<close> ends with an error, every open
  connection of the room, the sender included, is still sent the command envelope.
  The database is left as the mutation step left it: unchanged when that step was
  the one that failed, and unchanged altogether when the connection is down.
\<close>

theorem C9_broadcast_despite_persist_failure:
  assumes thrown: "snd (persistCommand (database st) rid uid cmd) = Some err"
      and set_like: "distinct (members st rid)"
  shows "(\<forall>c. outbox (handleCommand client rid uid (Some cmd) st) c
               = outbox st c @ (if c \<in> set (members st rid) \<and> readyState st c = 1
                                then [CommandMsg uid cmd] else [])) \<and>
         database (handleCommand client rid uid (Some cmd) st)
           = (case applyMutation (database st) rid cmd of
                Inl e \<Rightarrow> database st
              | Inr db1 \<Rightarrow> db1) \<and>
         (\<not> dbConnected (database st) \<longrightarrow>
            database (handleCommand client rid uid (Some cmd) st) = database st)"
proof -
  let ?st1 = "st\<lparr>database := fst (persistCommand (database st) rid uid cmd)\<rparr>"
  have m: "members ?st1 rid = members st rid" by (simp add: members_def)
  have d: "distinct (members ?st1 rid)" using set_like m by simp
  have ob: "outbox (handleCommand client rid uid (Some cmd) st) c
               = outbox st c @ (if c \<in> set (members st rid) \<and> readyState st c = 1
                                then [CommandMsg uid cmd] else [])" for c
    using broadcast_outbox [OF d, of "CommandMsg uid cmd" None c] m
    by (simp add: handleCommand_def)
  have db: "database (handleCommand client rid uid (Some cmd) st)
              = fst (persistCommand (database st) rid uid cmd)"
    using broadcast_database [OF d] by (simp add: handleCommand_def)
  have kept: "fst (persistCommand (database st) rid uid cmd)
           = (case applyMutation (database st) rid cmd of
                Inl e \<Rightarrow> database st
              | Inr db1 \<Rightarrow> db1)"
    using thrown by (auto simp: persistCommand_def split: sum.splits)
  have down: "\<not> dbConnected (database st) \<Longrightarrow>
      fst (persistCommand (database st) rid uid cmd) = database st"
    by (auto simp: persistCommand_def applyMutation_def RoomService_addShape_def
        RoomService_deleteShape_def RoomService_updateShape_def RoomService_saveOperation_def
        split: sum.splits option.splits if_splits)
  show ?thesis using ob db kept down by simp
qed

text \<open>
  C9, with the database down: both connections are sent the add, the room record
  still has no shape, and a client that joins after the database is back is sent an
  empty snapshot. And with the database up: \<open>remove-shape\<close> is not among the types
  the operation schema admits, so the operation record is rejected after the shape
  has been pulled, and the envelope is broadcast all the same.
\<close>

theorem C9_broadcast_despite_persist_failure_witness:
  "snd (persistCommand (database exampleServer) ''r1'' ''alice'' exampleAdd) = Some DbUnavailable \<and>
   distinct (members exampleServer ''r1'') \<and>
   outbox (handleCommand 1 ''r1'' ''alice'' (Some exampleAdd) exampleServer) 1
     = [CommandMsg ''alice'' exampleAdd] \<and>
   outbox (handleCommand 1 ''r1'' ''alice'' (Some exampleAdd) exampleServer) 2
     = [CommandMsg ''alice'' exampleAdd] \<and>
   persistedShapes (database (handleCommand 1 ''r1'' ''alice'' (Some exampleAdd) exampleServer)) ''r1''
     = [] \<and>
   outbox (snd (handleJoin 3 ''r1'' ''carol'' None
                  (reconnected (handleCommand 1 ''r1'' ''alice'' (Some exampleAdd) exampleServer)))) 3
     = [InitSync [\<lparr>userName = ''Alice'', userColor = ''#ff0000''\<rparr>,
                  \<lparr>userName = ''Bob'', userColor = ''#00ff00''\<rparr>] [] 0] \<and>
   snd (persistCommand (database serverWithShape) ''r1'' ''bob'' exampleRemove) = Some ValidationError \<and>
   distinct (members serverWithShape ''r1'') \<and>
   outbox (handleCommand 2 ''r1'' ''bob'' (Some exampleRemove) serverWithShape) 1
     = [CommandMsg ''alice'' exampleAdd, CommandMsg ''bob'' exampleRemove] \<and>
   persistedShapes (database (handleCommand 2 ''r1'' ''bob'' (Some exampleRemove) serverWithShape)) ''r1''
     = []"
proof -
  let ?st' = "handleCommand 1 ''r1'' ''alice'' (Some exampleAdd) exampleServer"
  have thrown: "snd (persistCommand (database exampleServer) ''r1'' ''alice'' exampleAdd)
                  = Some DbUnavailable"
    by (simp add: server_defs)
  have set_like: "distinct (members exampleServer ''r1'')"
    by (simp add: server_defs)
  note c9 = C9_broadcast_despite_persist_failure [OF thrown set_like, of 1]
  have ob: "outbox ?st' c = outbox exampleServer c @
      (if c \<in> set (members exampleServer ''r1'') \<and> readyState exampleServer c = 1
       then [CommandMsg ''alice'' exampleAdd] else [])" for c
    using c9 by blast
  have o1: "outbox ?st' 1 = [CommandMsg ''alice'' exampleAdd]"
    unfolding ob by (simp add: exampleServer_def members_def)
  have o2: "outbox ?st' 2 = [CommandMsg ''alice'' exampleAdd]"
    unfolding ob by (simp add: exampleServer_def members_def)
  have "\<not> dbConnected (database exampleServer)" by (simp add: exampleServer_def)
  then have db: "database ?st' = database exampleServer"
    using c9 by blast
  have shapes: "persistedShapes (database ?st') ''r1'' = []"
    unfolding db by (simp add: exampleServer_def persistedShapes_def roomOrNew_def newRoom_def)
  have st': "reconnected ?st' =
     exampleServer\<lparr>database := (database exampleServer)\<lparr>dbConnected := True\<rparr>,
                    outbox := (\<lambda>client. [])(1 := [CommandMsg ''alice'' exampleAdd],
                                              2 := [CommandMsg ''alice'' exampleAdd])\<rparr>"
    by (simp add: server_defs)
  have later: "outbox (snd (handleJoin 3 ''r1'' ''carol'' None (reconnected ?st'))) 3
     = [InitSync [\<lparr>userName = ''Alice'', userColor = ''#ff0000''\<rparr>,
                  \<lparr>userName = ''Bob'', userColor = ''#00ff00''\<rparr>] [] 0]"
    unfolding st'
    by (simp add: exampleServer_def handleJoin_def members_def RoomService_addUser_def
        RoomService_getRoom_def roomOrNew_def newRoom_def send_def deliver_def broadcast_def
        List.map_filter_simps Let_def)

  let ?st2 = "handleCommand 2 ''r1'' ''bob'' (Some exampleRemove) serverWithShape"
  have thrown2: "snd (persistCommand (database serverWithShape) ''r1'' ''bob'' exampleRemove)
                  = Some ValidationError"
    by (simp add: serverWithShape_eq exampleRemove_def persistCommand_def applyMutation_def
        RoomService_deleteShape_def RoomService_saveOperation_def operationTypes_def
        mkCommandData_def)
  have set_like2: "distinct (members serverWithShape ''r1'')"
    by (simp add: serverWithShape_eq exampleServer_def members_def)
  note c9b = C9_broadcast_despite_persist_failure [OF thrown2 set_like2, of 2]
  have "outbox ?st2 1 = outbox serverWithShape 1 @
      (if 1 \<in> set (members serverWithShape ''r1'') \<and> readyState serverWithShape 1 = 1
       then [CommandMsg ''bob'' exampleRemove] else [])"
    using c9b by blast
  then have p1: "outbox ?st2 1 = [CommandMsg ''alice'' exampleAdd, CommandMsg ''bob'' exampleRemove]"
    by (simp add: serverWithShape_eq exampleServer_def members_def)
  have "database ?st2 =
          (case applyMutation (database serverWithShape) ''r1'' exampleRemove of
             Inl e \<Rightarrow> database serverWithShape | Inr db1 \<Rightarrow> db1)"
    using c9b by blast
  then have shapes2: "persistedShapes (database ?st2) ''r1'' = []"
    by (simp add: serverWithShape_eq exampleRemove_def applyMutation_def
        RoomService_deleteShape_def mkCommandData_def persistedShapes_def roomOrNew_def newRoom_def)
  from thrown set_like o1 o2 shapes later thrown2 set_like2 p1 shapes2 show ?thesis by blast
qed

text \<open>
  C7: with the database up and the joining connection open, \<open>handleJoin\<close> sends the
  joining connection exactly one message, an \<open>init_sync\<close> with the \<open>K\<close> persisted
  shapes of the room and the user data of the other connections of the room, and
  sends the \<open>join\<close> message to every other open connection of the room and to nobody
  else.
\<close>

theorem C7_join_sends_snapshot:
  assumes up: "dbConnected (database st)"
      and opened: "readyState st client = 1"
      and set_like: "distinct (members st rid)"
      and count: "length (persistedShapes (database st) rid) = K"
  shows "\<exists>st'. handleJoin client rid uid userData st = (None, st') \<and>
           outbox st' client = outbox st client @
             [InitSync
                (List.map_filter
                   (\<lambda>other. case clients st other of Some info \<Rightarrow> ciUser info | None \<Rightarrow> None)
                   (filter (\<lambda>other. other \<noteq> client) (members st rid)))
                (persistedShapes (database st) rid)
                (version (roomOrNew (database st) rid))] \<and>
           length (persistedShapes (database st) rid) = K \<and>
           (\<forall>other. other \<noteq> client \<longrightarrow>
              outbox st' other = outbox st other @
                (if other \<in> set (members st rid) \<and> readyState st other = 1
                 then [JoinMsg uid userData] else []))"
proof -
  let ?ms = "if client \<in> set (members st rid) then members st rid else members st rid @ [client]"
  let ?st1 = "st\<lparr>clients := (clients st)
                     (client \<mapsto> \<lparr>ciUserId = uid, ciRoomId = rid, ciUser = userData\<rparr>),
                   rooms := (rooms st)(rid \<mapsto> ?ms)\<rparr>"
  let ?room = "roomOrNew (database st) rid"
  let ?room1 = "?room\<lparr>roomUsers := roomUsers ?room @ [\<lparr>ruUserId = uid, ruData = userData\<rparr>]\<rparr>"
  let ?db1 = "(database st)\<lparr>roomsTable := (roomsTable (database st))(rid \<mapsto> ?room1)\<rparr>"
  let ?users = "List.map_filter
                   (\<lambda>other. case clients st other of Some info \<Rightarrow> ciUser info | None \<Rightarrow> None)
                   (filter (\<lambda>other. other \<noteq> client) (members st rid))"
  let ?init = "InitSync ?users (persistedShapes (database st) rid) (version ?room)"
  let ?st2 = "deliver client ?init (?st1\<lparr>database := ?db1\<rparr>)"
  let ?st3 = "broadcast rid (JoinMsg uid userData) (Some client) ?st2"
  have m1: "members ?st1 rid = ?ms" by (simp add: members_def)
  have others: "filter (\<lambda>other. other \<noteq> client) ?ms = filter (\<lambda>other. other \<noteq> client) (members st rid)"
    by simp
  have users: "List.map_filter
                 (\<lambda>other. case clients ?st1 other of Some info \<Rightarrow> ciUser info | None \<Rightarrow> None)
                 (filter (\<lambda>other. other \<noteq> client) (members ?st1 rid)) = ?users"
    unfolding m1 others by (rule map_filter_cong_filter) simp
  have add_user: "RoomService_addUser (database ?st1) rid \<lparr>ruUserId = uid, ruData = userData\<rparr> = Inr ?db1"
    using up by (simp add: RoomService_addUser_def Let_def)
  have get: "RoomService_getRoom ?db1 rid = Inr (?room1, ?db1)"
    using up by (simp add: RoomService_getRoom_def)
  have snap: "roomShapes ?room1 = persistedShapes (database st) rid" "version ?room1 = version ?room"
    by (simp_all add: persistedShapes_def)
  have sent: "send client ?init (?st1\<lparr>database := ?db1\<rparr>) = ?st2"
    using opened by (simp add: send_def)
  have join: "handleJoin client rid uid userData st = (None, ?st3)"
    unfolding handleJoin_def Let_def
    by (simp only: add_user get users snap sent sum.case prod.case)
  have m2: "members ?st2 rid = ?ms" by (simp add: members_def deliver_def)
  have d2: "distinct (members ?st2 rid)" unfolding m2 using set_like by simp
  have ob2: "outbox ?st2 c = outbox st c @ (if c = client then [?init] else [])" for c
    by (simp add: deliver_def)
  have rs2: "readyState ?st2 = readyState st" by (simp add: deliver_def)
  have ob3: "outbox ?st3 c = outbox ?st2 c @
      (if c \<in> set ?ms \<and> Some c \<noteq> Some client \<and> readyState st c = 1 then [JoinMsg uid userData] else [])" for c
    using broadcast_outbox [OF d2, of "JoinMsg uid userData" "Some client" c]
    unfolding m2 rs2 by simp
  have own: "outbox ?st3 client = outbox st client @ [?init]"
    by (simp add: ob3 ob2)
  have rest: "other \<noteq> client \<Longrightarrow> outbox ?st3 other = outbox st other @
                (if other \<in> set (members st rid) \<and> readyState st other = 1
                 then [JoinMsg uid userData] else [])" for other
    by (simp add: ob3 ob2)
  show ?thesis using join own rest count by blast
qed

text \<open>C7, on a third client joining the room after one rectangle has been persisted.\<close>

theorem C7_join_sends_snapshot_witness:
  "dbConnected (database serverWithShape) \<and> readyState serverWithShape 3 = 1 \<and>
   distinct (members serverWithShape ''r1'') \<and>
   length (persistedShapes (database serverWithShape) ''r1'') = 1 \<and>
   (\<exists>st'. handleJoin 3 ''r1'' ''carol'' None serverWithShape = (None, st') \<and>
      outbox st' 3 =
        [InitSync [\<lparr>userName = ''Alice'', userColor = ''#ff0000''\<rparr>,
                   \<lparr>userName = ''Bob'', userColor = ''#00ff00''\<rparr>]
                  [\<lparr>wrapId = Some ''s2'', wrapType = ''Rect'',
                    wrapData = ShapeData (toJSON (exampleStore 2))\<rparr>]
                  1] \<and>
      outbox st' 1 = [CommandMsg ''alice'' exampleAdd, JoinMsg ''carol'' None] \<and>
      outbox st' 2 = [CommandMsg ''alice'' exampleAdd, JoinMsg ''carol'' None] \<and>
      outbox st' 4 = [])"
proof -
  have up: "dbConnected (database serverWithShape)"
    by (simp add: serverWithShape_eq)
  have opened: "readyState serverWithShape 3 = 1"
    by (simp add: serverWithShape_eq exampleServer_def)
  have set_like: "distinct (members serverWithShape ''r1'')"
    by (simp add: serverWithShape_eq exampleServer_def members_def)
  have count: "length (persistedShapes (database serverWithShape) ''r1'') = 1"
    by (simp add: serverWithShape_eq persistedShapes_def roomOrNew_def newRoom_def)
  obtain st' where
    j: "handleJoin 3 ''r1'' ''carol'' None serverWithShape = (None, st')"
    and own: "outbox st' 3 = outbox serverWithShape 3 @
             [InitSync
                (List.map_filter
                   (\<lambda>other. case clients serverWithShape other of
                               Some info \<Rightarrow> ciUser info | None \<Rightarrow> None)
                   (filter (\<lambda>other. other \<noteq> 3) (members serverWithShape ''r1'')))
                (persistedShapes (database serverWithShape) ''r1'')
                (version (roomOrNew (database serverWithShape) ''r1''))]"
    and rest: "\<forall>other. other \<noteq> 3 \<longrightarrow>
              outbox st' other = outbox serverWithShape other @
                (if other \<in> set (members serverWithShape ''r1'') \<and> readyState serverWithShape other = 1
                 then [JoinMsg ''carol'' None] else [])"
    using C7_join_sends_snapshot [OF up opened set_like count, of "''carol''" None] by blast
  have o3: "outbox st' 3 =
        [InitSync [\<lparr>userName = ''Alice'', userColor = ''#ff0000''\<rparr>,
                   \<lparr>userName = ''Bob'', userColor = ''#00ff00''\<rparr>]
                  [\<lparr>wrapId = Some ''s2'', wrapType = ''Rect'',
                    wrapData = ShapeData (toJSON (exampleStore 2))\<rparr>]
                  1]"
    unfolding own
    by (simp add: serverWithShape_eq exampleServer_def members_def persistedShapes_def
        roomOrNew_def newRoom_def List.map_filter_simps)
  have o1: "outbox st' 1 = [CommandMsg ''alice'' exampleAdd, JoinMsg ''carol'' None]"
    using rest by (simp add: serverWithShape_eq exampleServer_def members_def)
  have o2: "outbox st' 2 = [CommandMsg ''alice'' exampleAdd, JoinMsg ''carol'' None]"
    using rest by (simp add: serverWithShape_eq exampleServer_def members_def)
  have o4: "outbox st' 4 = []"
    using rest by (simp add: serverWithShape_eq exampleServer_def members_def)
  from up opened set_like count j o3 o1 o2 o4 show ?thesis by blast
qed

section \<open>Properties of the select tool\<close>

lemmas tool_defs = dragGesture_def onPointerDown_def onPointerMove_def onPointerUp_def
  handleDrag_def stateAfter_def Scene_hitTest_def moveBy_def moveBack_def
  CommandManager_execute_def pushUndo_def mkMoveShapeCommand_def

lemma afterDrag1_eq:
  "afterDrag1 =
     \<lparr>commandManager =
        \<lparr>undoStack = [MoveShapeCommand [1] 10 5 [1 \<mapsto> mkVector 110 105]],
         redoStack = [], maxHistory = 100\<rparr>,
      editorWorld = draggedWorld 110 105,
      selectTool = draggedTool\<rparr>"
  unfolding afterDrag1_def exampleEditor_def draggedWorld_def draggedTool_def
  by (simp add: tool_defs matrix_defs mkCommandManager_def mkSelectTool_def exampleWorld_def
      exampleStore_def add_def mkScene_def Scene_sort_def Let_def)

lemma afterDrag2_eq:
  "afterDrag2 =
     \<lparr>commandManager =
        \<lparr>undoStack = [MoveShapeCommand [1] 20 10 [1 \<mapsto> mkVector 110 105]],
         redoStack = [], maxHistory = 100\<rparr>,
      editorWorld = draggedWorld 120 110,
      selectTool = draggedTool\<rparr>"
  unfolding afterDrag2_def afterDrag1_eq draggedWorld_def draggedTool_def
  by (simp add: tool_defs matrix_defs mkSelectTool_def exampleWorld_def
      exampleStore_def add_def mkScene_def Scene_sort_def Let_def)

lemma afterDrag3_eq:
  "afterDrag3 =
     \<lparr>commandManager =
        \<lparr>undoStack = [MoveShapeCommand [1] 30 15 [1 \<mapsto> mkVector 110 105]],
         redoStack = [], maxHistory = 100\<rparr>,
      editorWorld = draggedWorld 130 115,
      selectTool = draggedTool\<rparr>"
  unfolding afterDrag3_def afterDrag2_eq draggedWorld_def draggedTool_def
  by (simp add: tool_defs matrix_defs mkSelectTool_def exampleWorld_def
      exampleStore_def add_def mkScene_def Scene_sort_def Let_def)

text \<open>
  C5, evaluated on three drags by \<open>(10, 5)\<close> of the rectangle \<open>s1\<close>, which is at
  \<open>(100, 100)\<close> before the first drag: the three move commands merge into one undo
  entry with the delta \<open>(30, 15)\<close>, and the rectangle is at \<open>(130, 115)\<close>. The
  positions that entry has recorded are those of the moment the first command was
  constructed, after the preview of the first drag, so one \<open>undo()\<close> puts the
  rectangle at \<open>(110, 105)\<close>, not at \<open>(100, 100)\<close>.
\<close>

theorem C5_drags_undo_to_position_after_first_drag:
  "positionOf (editorWorld exampleEditor) ''s1'' = Some (100, 100) \<and>
   undoStack (commandManager afterDrag3)
     = [MoveShapeCommand [1] 30 15 [1 \<mapsto> mkVector 110 105]] \<and>
   positionOf (editorWorld afterDrag3) ''s1'' = Some (130, 115) \<and>
   positionOf (snd (CommandManager_undo (commandManager afterDrag3, editorWorld afterDrag3))) ''s1''
     = Some (110, 105)"
proof -
  have 1: "positionOf (editorWorld exampleEditor) ''s1'' = Some (100, 100)"
    by (simp add: exampleEditor_def positionOf_def findById_def exampleWorld_def exampleStore_def
        mkRect_def add_def mkScene_def Scene_sort_def)
  have 2: "undoStack (commandManager afterDrag3)
     = [MoveShapeCommand [1] 30 15 [1 \<mapsto> mkVector 110 105]]"
    by (simp add: afterDrag3_eq)
  have 3: "positionOf (editorWorld afterDrag3) ''s1'' = Some (130, 115)"
    by (simp add: afterDrag3_eq draggedWorld_def positionOf_def findById_def exampleWorld_def
        exampleStore_def mkRect_def add_def mkScene_def Scene_sort_def)
  have 4: "positionOf (snd (CommandManager_undo (commandManager afterDrag3, editorWorld afterDrag3))) ''s1''
     = Some (110, 105)"
    by (simp add: afterDrag3_eq draggedWorld_def positionOf_def findById_def exampleWorld_def
        exampleStore_def mkRect_def add_def mkScene_def Scene_sort_def CommandManager_undo_def
        restorePosition_def mkVector_def Let_def)
  from 1 2 3 4 show ?thesis by blast
qed

end
